theory Spec2Isabelle
  imports Main
begin

section \<open>Python strings and paths used by the handler\<close>

text \<open>
  A Python \<open>str\<close> is modelled as a \<open>string\<close>: a list of characters with code points
  below 256. An exception is represented by its message, \<open>str(e)\<close>, which is all the
  handler ever reads of it.
\<close>

type_synonym exn = string

text \<open>
  \<open>str.isspace\<close> on one character, for the code points below 256: TAB, LF, VT, FF, CR,
  the separators 0x1C..0x1F, SPACE, NEL (0x85) and NBSP (0xA0).
\<close>

definition py_isspace :: "char \<Rightarrow> bool" where
  "py_isspace c =
     (let n = (of_char c :: nat)
      in (9 \<le> n \<and> n \<le> 13) \<or> (28 \<le> n \<and> n \<le> 32) \<or> n = 133 \<or> n = 160)"

text \<open>\<open>s.strip()\<close>: leading and trailing whitespace removed.\<close>

definition py_strip :: "string \<Rightarrow> string" where
  "py_strip s = rev (dropWhile py_isspace (rev (dropWhile py_isspace s)))"

text \<open>\<open>s.strip(chars)\<close>: leading and trailing characters of \<open>chars\<close> removed.\<close>

definition strip_chars :: "string \<Rightarrow> string \<Rightarrow> string" where
  "strip_chars cs s =
     rev (dropWhile (\<lambda>c. c \<in> set cs) (rev (dropWhile (\<lambda>c. c \<in> set cs) s)))"

text \<open>
  \<open>s.split()\<close> without argument: the maximal runs of non-whitespace characters, in
  order; never an empty word. The first argument is the word being read.
\<close>

fun split_ws :: "string \<Rightarrow> string \<Rightarrow> string list" where
  "split_ws w [] = (if w = [] then [] else [w])"
| "split_ws w (c # cs) =
     (if py_isspace c then (if w = [] then split_ws [] cs else w # split_ws [] cs)
      else split_ws (w @ [c]) cs)"

definition py_split :: "string \<Rightarrow> string list" where
  "py_split s = split_ws [] s"

text \<open>\<open>sep.join(xs)\<close>.\<close>

fun py_join :: "string \<Rightarrow> string list \<Rightarrow> string" where
  "py_join sep [] = []"
| "py_join sep [x] = x"
| "py_join sep (x # y # ys) = x @ sep @ py_join sep (y # ys)"

text \<open>\<open>s.split('/')\<close>: every piece between separators, empty pieces included.\<close>

fun split_sep :: "string \<Rightarrow> string \<Rightarrow> string list" where
  "split_sep w [] = [w]"
| "split_sep w (c # cs) =
     (if c = CHR ''/'' then w # split_sep [] cs else split_sep (w @ [c]) cs)"

subsection \<open>\<open>werkzeug.utils.secure_filename\<close>\<close>

text \<open>
  The library function the handler calls on every declared file name, on a POSIX host
  (\<open>os.sep = '/'\<close>, no \<open>os.path.altsep\<close>, \<open>os.name \<noteq> 'nt'\<close>):
  \<^verbatim>\<open>
  _filename_ascii_strip_re = re.compile(r"[^A-Za-z0-9_.-]")

  def secure_filename(filename):
      filename = unicodedata.normalize("NFKD", filename)
      filename = filename.encode("ascii", "ignore").decode("ascii")
      for sep in os.sep, os.path.altsep:
          if sep:
              filename = filename.replace(sep, " ")
      filename = str(_filename_ascii_strip_re.sub("", "_".join(filename.split()))
                    ).strip("._")
      ...   # Windows device names, only when os.name == "nt"
      return filename
  \<close>
  The Unicode normalisation table is a parameter \<open>nfkd\<close>; it is the identity on ASCII
  text. Everything after it is computed here.
\<close>

definition is_ascii :: "char \<Rightarrow> bool" where
  "is_ascii c = ((of_char c :: nat) < 128)"

definition sep_to_space :: "char \<Rightarrow> char" where
  "sep_to_space c = (if c = CHR ''/'' then CHR '' '' else c)"

definition filename_char_ok :: "char \<Rightarrow> bool" where
  "filename_char_ok c =
     (let n = (of_char c :: nat)
      in (65 \<le> n \<and> n \<le> 90) \<or> (97 \<le> n \<and> n \<le> 122) \<or> (48 \<le> n \<and> n \<le> 57)
         \<or> n = 95 \<or> n = 46 \<or> n = 45)"

definition secure_filename :: "(string \<Rightarrow> string) \<Rightarrow> string \<Rightarrow> string" where
  "secure_filename nfkd filename =
     strip_chars ''._''
       (filter filename_char_ok
         (py_join ''_'' (py_split (map sep_to_space (filter is_ascii (nfkd filename))))))"

subsection \<open>\<open>pathlib\<close> on POSIX\<close>

text \<open>
  The components of a path as \<open>PurePosixPath\<close> parses it: the pieces between
  separators, without the empty ones and without \<open>.\<close>; \<open>..\<close> is kept.
\<close>

definition path_parts :: "string \<Rightarrow> string list" where
  "path_parts s = filter (\<lambda>c. c \<noteq> [] \<and> c \<noteq> ''.'') (split_sep [] s)"

text \<open>\<open>Path(s).name\<close>: the last component, or the empty string when there is none.\<close>

definition path_name :: "string \<Rightarrow> string" where
  "path_name s = (case path_parts s of [] \<Rightarrow> [] | p # ps \<Rightarrow> last (p # ps))"

text \<open>
  The root a \<open>PurePosixPath\<close> keeps: exactly two leading separators are preserved,
  one or three and more collapse to one.
\<close>

definition path_root :: "string \<Rightarrow> string" where
  "path_root s =
     (if take 2 s = ''//'' \<and> take 3 s \<noteq> ''///'' then ''//''
      else if take 1 s = ''/'' then ''/'' else [])"

text \<open>
  \<open>str(temp_dir / name)\<close>, where \<open>td = str(temp_dir)\<close> is the normalised absolute path
  of the temporary directory: an absolute \<open>name\<close> replaces the left operand,
  a relative one appends its components, and an empty one leaves \<open>td\<close>.
\<close>

definition path_join :: "string \<Rightarrow> string \<Rightarrow> string" where
  "path_join td name =
     (if path_root name \<noteq> [] then path_root name @ py_join ''/'' (path_parts name)
      else if path_parts name = [] then td
      else td @ ''/'' @ py_join ''/'' (path_parts name))"

section \<open>The request, the collaborators and the observable state\<close>

text \<open>
  A parsed JSON value as \<open>request.get_json()\<close> returns it. An object is the association
  list of a \<open>dict\<close> (keys distinct). A number without fraction or exponent is a Python
  \<open>int\<close>, any other number a \<open>float\<close>: \<open>JFloat m e\<close> is the float \<open>m \<times> 2\<^sup>e\<close>, so that
  \<open>0.5\<close> is \<open>JFloat 1 (-1)\<close> and only a mantissa of zero makes a float zero.
\<close>

datatype json =
    JNull
  | JBool bool
  | JInt int
  | JFloat int int
  | JStr string
  | JArr "json list"
  | JObj "(string \<times> json) list"

text \<open>An uploaded file (\<open>werkzeug.datastructures.FileStorage\<close>): declared name and bytes.\<close>

record file_storage =
  filename :: string
  content :: string

text \<open>
  The two request shapes. \<open>JsonRequest r\<close> has \<open>request.is_json\<close> true and \<open>r\<close> is what
  \<open>request.get_json()\<close> does: raise or return the body. \<open>FormRequest form files\<close> carries
  the form fields and the uploaded files as multi-dicts, in the order they were sent.
\<close>

datatype request =
    JsonRequest "exn + json"
  | FormRequest "(string \<times> string) list" "(string \<times> file_storage) list"

record project =
  updated_at :: nat

text \<open>The keyword arguments of \<open>ai_service.generate_image\<close>.\<close>

record ai_args =
  prompt :: string
  ref_image_path :: "string option"
  aspect_ratio :: string
  resolution :: string
  additional_ref_images :: "string list option"

text \<open>
  What the handler's responses are built from. \<open>not_found\<close>, \<open>bad_request\<close>,
  \<open>error_response\<close> and \<open>success_response\<close> live in \<open>utils\<close>; each call is kept as a
  constructor with its arguments.
\<close>

datatype response =
    success_response string string
  | error_response string string nat
  | not_found string
  | bad_request string

text \<open>
  Modelled from the spec: \<open>utils.not_found\<close> and \<open>utils.bad_request\<close> are not part of the
  sources; the spec gives 404 for a project that is not found and 400 for a missing
  prompt, each response carrying its message. \<open>error_response\<close> receives its status as
  an argument, and a success is a 200.
\<close>

fun status_code :: "response \<Rightarrow> nat" where
  "status_code (success_response url rel) = 200"
| "status_code (error_response code msg st) = st"
| "status_code (not_found what) = 404"
| "status_code (bad_request msg) = 400"

fun message :: "response \<Rightarrow> string option" where
  "message (success_response url rel) = None"
| "message (error_response code msg st) = Some msg"
| "message (not_found what) = Some (what @ '' not found'')"
| "message (bad_request msg) = Some msg"

text \<open>
  Everything outside the handler that it calls: each field is the outcome of one
  external call, \<open>Inl\<close> or \<open>Some\<close> an exception where the call can raise.
  \<^item> \<open>find_project\<close>: \<open>Project.query.get\<close>;
  \<^item> \<open>config\<close>: \<open>current_app.config\<close>;
  \<^item> \<open>new_ai_service\<close>, \<open>new_file_service\<close>: the two constructors;
  \<^item> \<open>mkdtemp\<close>: \<open>tempfile.mkdtemp(dir=...)\<close>, the path of the directory it creates;
  \<^item> \<open>nfkd\<close>: the Unicode table of \<open>secure_filename\<close>;
  \<^item> \<open>save_error\<close>: an operating-system failure of \<open>FileStorage.save\<close> at a path;
  \<^item> \<open>generate_image\<close>: the synthesis call, \<open>None\<close> for a result that is not truthy;
  \<^item> \<open>save_material_image\<close>, \<open>get_file_url\<close>: the storage calls;
  \<^item> \<open>commit\<close>: \<open>db.session.commit()\<close>.
\<close>

record 'img env =
  find_project :: "string \<Rightarrow> exn + project option"
  config :: "string \<Rightarrow> string option"
  new_ai_service :: "string \<Rightarrow> string \<Rightarrow> exn option"
  new_file_service :: "string \<Rightarrow> exn option"
  mkdtemp :: "string \<Rightarrow> exn + string"
  nfkd :: "string \<Rightarrow> string"
  save_error :: "string \<Rightarrow> exn option"
  generate_image :: "ai_args \<Rightarrow> exn + 'img option"
  save_material_image :: "'img \<Rightarrow> string \<Rightarrow> exn + string"
  get_file_url :: "string \<Rightarrow> string \<Rightarrow> string \<Rightarrow> exn + string"
  commit :: "exn option"

text \<open>
  The state the handler changes: the directories and files of the file system, and the
  log of the temporary directories created, of the calls made to the synthesis
  capability and of the commits and rollbacks of the database session.
\<close>

datatype event = TempDir string | Generate ai_args | Commit | Rollback

record world =
  dirs :: "string set"
  files :: "string \<Rightarrow> string option"
  log :: "event list"

text \<open>A step either raises (\<open>Inl\<close>) or yields a value, and leaves a state in both cases.\<close>

type_synonym 'a step = "world \<Rightarrow> (exn + 'a) \<times> world"

definition pure :: "exn + 'a \<Rightarrow> 'a step" where
  "pure r w = (r, w)"

definition bind :: "'a step \<Rightarrow> ('a \<Rightarrow> 'b step) \<Rightarrow> 'b step" where
  "bind m f w = (case m w of (Inl e, w') \<Rightarrow> (Inl e, w') | (Inr a, w') \<Rightarrow> f a w')"

section \<open>The handler \<open>generate_material_image\<close>\<close>

subsection \<open>Parsing the request (lines 33 to 43)\<close>

text \<open>Truthiness of a parsed JSON value, as \<open>request.get_json() or {}\<close> tests it.\<close>

fun json_truthy :: "json \<Rightarrow> bool" where
  "json_truthy JNull = False"
| "json_truthy (JBool b) = b"
| "json_truthy (JInt n) = (n \<noteq> 0)"
| "json_truthy (JFloat m e) = (m \<noteq> 0)"
| "json_truthy (JStr s) = (s \<noteq> [])"
| "json_truthy (JArr xs) = (xs \<noteq> [])"
| "json_truthy (JObj kvs) = (kvs \<noteq> [])"

fun py_type_name :: "json \<Rightarrow> string" where
  "py_type_name JNull = ''NoneType''"
| "py_type_name (JBool b) = ''bool''"
| "py_type_name (JInt n) = ''int''"
| "py_type_name (JFloat m e) = ''float''"
| "py_type_name (JStr s) = ''str''"
| "py_type_name (JArr xs) = ''list''"
| "py_type_name (JObj kvs) = ''dict''"

definition quoted :: "string \<Rightarrow> string" where
  "quoted s = CHR 0x27 # s @ [CHR 0x27]"

text \<open>The message of the \<open>AttributeError\<close> for a missing method.\<close>

definition no_attribute :: "json \<Rightarrow> string \<Rightarrow> exn" where
  "no_attribute v attr =
     quoted (py_type_name v) @ '' object has no attribute '' @ quoted attr"

text \<open>\<open>data.get('prompt', '')\<close>: only a \<open>dict\<close> has \<open>get\<close>.\<close>

fun json_get_prompt :: "json \<Rightarrow> exn + json" where
  "json_get_prompt (JObj kvs) =
     Inr (case map_of kvs ''prompt'' of None \<Rightarrow> JStr [] | Some v \<Rightarrow> v)"
| "json_get_prompt v = Inl (no_attribute v ''get'')"

text \<open>\<open>v.strip()\<close>: only a \<open>str\<close> has \<open>strip\<close>.\<close>

fun json_strip :: "json \<Rightarrow> exn + string" where
  "json_strip (JStr s) = Inr (py_strip s)"
| "json_strip v = Inl (no_attribute v ''strip'')"

text \<open>\<open>request.files.getlist(key)\<close>: every file sent under the key, in order.\<close>

definition getlist :: "string \<Rightarrow> (string \<times> file_storage) list \<Rightarrow> file_storage list" where
  "getlist key fs = map snd (filter (\<lambda>kv. fst kv = key) fs)"

text \<open>
  The branch on \<open>request.is_json\<close>: the trimmed prompt, the primary reference file and
  the additional reference files.
\<close>

fun parse_request :: "request \<Rightarrow> exn + (string \<times> file_storage option \<times> file_storage list)" where
  "parse_request (JsonRequest body) =
     (case body of
        Inl e \<Rightarrow> Inl e
      | Inr j \<Rightarrow>
          (case json_get_prompt (if json_truthy j then j else JObj []) of
             Inl e \<Rightarrow> Inl e
           | Inr v \<Rightarrow>
               (case json_strip v of
                  Inl e \<Rightarrow> Inl e
                | Inr p \<Rightarrow> Inr (p, None, []))))"
| "parse_request (FormRequest form fs) =
     Inr (py_strip (case map_of form ''prompt'' of None \<Rightarrow> [] | Some v \<Rightarrow> v),
          map_of fs ''ref_image'',
          getlist ''extra_images'' fs)"

subsection \<open>The file system\<close>

text \<open>\<open>current_app.config[key]\<close>; the message of a \<open>KeyError\<close> is the quoted key.\<close>

definition config_get :: "(string \<Rightarrow> string option) \<Rightarrow> string \<Rightarrow> exn + string" where
  "config_get cfg key = (case cfg key of None \<Rightarrow> Inl (quoted key) | Some v \<Rightarrow> Inr v)"

text \<open>\<open>Path(tempfile.mkdtemp(dir=d))\<close>: the directory exists once the call has returned.\<close>

definition make_temp_dir :: "'img env \<Rightarrow> string \<Rightarrow> string step" where
  "make_temp_dir env d w =
     (case mkdtemp env d of
        Inl e \<Rightarrow> (Inl e, w)
      | Inr td \<Rightarrow> (Inr td, w\<lparr>dirs := insert td (dirs w), log := log w @ [TempDir td]\<rparr>))"

text \<open>
  \<open>f.save(dst)\<close> opens \<open>dst\<close> for writing and copies the bytes: it raises on a
  directory and on any failure of the operating system, and creates or overwrites
  the file otherwise.
\<close>

definition file_save :: "'img env \<Rightarrow> file_storage \<Rightarrow> string \<Rightarrow> unit step" where
  "file_save env f dst w =
     (if dst \<in> dirs w then (Inl (''[Errno 21] Is a directory: '' @ quoted dst), w)
      else case save_error env dst of
             Some e \<Rightarrow> (Inl e, w)
           | None \<Rightarrow> (Inr (), w\<lparr>files := (files w)(dst \<mapsto> content f)\<rparr>))"

text \<open>A path is the directory \<open>td\<close> or lies below it.\<close>

definition under :: "string \<Rightarrow> string \<Rightarrow> bool" where
  "under td p = (p = td \<or> take (length td + 1) p = td @ ''/'')"

definition path_exists :: "world \<Rightarrow> string \<Rightarrow> bool" where
  "path_exists w p = (p \<in> dirs w \<or> files w p \<noteq> None)"

text \<open>\<open>shutil.rmtree(td, ignore_errors=True)\<close>: the directory and all below it are gone.\<close>

definition rmtree :: "string \<Rightarrow> world \<Rightarrow> world" where
  "rmtree td w =
     w\<lparr>dirs := Set.filter (\<lambda>d. \<not> under td d) (dirs w),
       files := (\<lambda>p. if under td p then None else files w p)\<rparr>"

subsection \<open>Materialising the reference files (lines 58 to 73)\<close>

text \<open>
  The primary reference: saved only when the file was sent and has a name. The
  default \<open>'ref.png'\<close> of line 61 is kept as written.
\<close>

definition save_ref :: "'img env \<Rightarrow> string \<Rightarrow> file_storage option \<Rightarrow> string option step" where
  "save_ref env td ref_file =
     (case ref_file of
        None \<Rightarrow> pure (Inr None)
      | Some f \<Rightarrow>
          if filename f = [] then pure (Inr None)
          else
            (let ref_filename =
                   secure_filename (nfkd env)
                     (if filename f = [] then ''ref.png'' else filename f);
                 ref_path = path_join td ref_filename
             in bind (file_save env f ref_path) (\<lambda>_. pure (Inr (Some ref_path)))))"

text \<open>
  The loop over \<open>extra_files\<close>; the third argument is \<open>additional_ref_images\<close> as built
  so far. A \<open>FileStorage\<close> is truthy exactly when its name is not empty.
\<close>

fun save_extras ::
  "'img env \<Rightarrow> string \<Rightarrow> file_storage list \<Rightarrow> string list \<Rightarrow> string list step" where
  "save_extras env td [] additional = pure (Inr additional)"
| "save_extras env td (extra # rest) additional =
     (if filename extra = [] \<or> filename extra = [] then save_extras env td rest additional
      else
        (let extra_filename = secure_filename (nfkd env) (filename extra);
             extra_path = path_join td extra_filename
         in bind (file_save env extra extra_path)
              (\<lambda>_. save_extras env td rest (additional @ [extra_path]))))"

subsection \<open>Synthesis, persistence and the transaction (lines 76 to 104)\<close>

definition call_generate_image :: "'img env \<Rightarrow> ai_args \<Rightarrow> 'img option step" where
  "call_generate_image env args w = (generate_image env args, w\<lparr>log := log w @ [Generate args]\<rparr>)"

definition db_commit :: "'img env \<Rightarrow> unit step" where
  "db_commit env w =
     (case commit env of
        Some e \<Rightarrow> (Inl e, w)
      | None \<Rightarrow> (Inr (), w\<lparr>log := log w @ [Commit]\<rparr>))"

definition db_rollback :: "world \<Rightarrow> world" where
  "db_rollback w = w\<lparr>log := log w @ [Rollback]\<rparr>"

text \<open>
  Lines 87 to 104: the generated image is stored, its URL derived, the session
  committed. The self-assignment of \<open>project.updated_at\<close> on line 98 changes nothing
  and is left out.
\<close>

definition persist :: "'img env \<Rightarrow> string \<Rightarrow> 'img \<Rightarrow> response step" where
  "persist env project_id img =
     bind (pure (save_material_image env img project_id)) (\<lambda>relative_path.
     bind (pure (get_file_url env project_id ''materials'' (path_name relative_path)))
       (\<lambda>image_url.
     bind (db_commit env) (\<lambda>_.
     pure (Inr (success_response image_url relative_path)))))"

text \<open>Lines 75 to 85: the synthesis call and the test of its result.\<close>

definition synthesize ::
  "'img env \<Rightarrow> string \<Rightarrow> string \<Rightarrow> string option \<Rightarrow> string list \<Rightarrow> response step" where
  "synthesize env project_id prompt_text ref_path additional =
     bind (pure (config_get (config env) ''DEFAULT_ASPECT_RATIO'')) (\<lambda>ratio.
     bind (pure (config_get (config env) ''DEFAULT_RESOLUTION'')) (\<lambda>res.
     bind (call_generate_image env
             \<lparr>prompt = prompt_text, ref_image_path = ref_path, aspect_ratio = ratio,
              resolution = res,
              additional_ref_images = (if additional = [] then None else Some additional)\<rparr>)
       (\<lambda>image.
          case image of
            None \<Rightarrow>
              pure (Inr (error_response ''AI_SERVICE_ERROR'' ''Failed to generate image'' 503))
          | Some img \<Rightarrow> persist env project_id img)))"

text \<open>The body of the inner \<open>try\<close> (lines 58 to 104).\<close>

definition try_body ::
  "'img env \<Rightarrow> string \<Rightarrow> string \<Rightarrow> file_storage option \<Rightarrow> file_storage list \<Rightarrow> string
     \<Rightarrow> response step" where
  "try_body env project_id prompt_text ref_file extra_files td =
     bind (save_ref env td ref_file) (\<lambda>ref_path.
     bind (save_extras env td extra_files []) (\<lambda>additional.
     synthesize env project_id prompt_text ref_path additional))"

text \<open>The \<open>finally\<close> clause: runs after the body, however the body ended.\<close>

definition finally_cleanup :: "string \<Rightarrow> 'a step \<Rightarrow> 'a step" where
  "finally_cleanup td body w =
     (case body w of (r, w') \<Rightarrow> (r, if path_exists w' td then rmtree td w' else w'))"

definition raise_if :: "exn option \<Rightarrow> exn + unit" where
  "raise_if r = (case r of Some e \<Rightarrow> Inl e | None \<Rightarrow> Inr ())"

text \<open>
  Lines 48 to 55: the two services are constructed from the configuration and the
  temporary directory is created under the upload folder.
\<close>

definition acquire_workspace :: "'img env \<Rightarrow> string step" where
  "acquire_workspace env =
     bind (pure (config_get (config env) ''GOOGLE_API_KEY'')) (\<lambda>api_key.
     bind (pure (config_get (config env) ''GOOGLE_API_BASE'')) (\<lambda>api_base.
     bind (pure (raise_if (new_ai_service env api_key api_base))) (\<lambda>_.
     bind (pure (config_get (config env) ''UPLOAD_FOLDER'')) (\<lambda>folder.
     bind (pure (raise_if (new_file_service env folder))) (\<lambda>_.
     bind (pure (config_get (config env) ''UPLOAD_FOLDER'')) (\<lambda>upload_folder.
     make_temp_dir env upload_folder))))))"

text \<open>The body of the outer \<open>try\<close> (lines 28 to 108).\<close>

definition handler_body :: "'img env \<Rightarrow> string \<Rightarrow> request \<Rightarrow> response step" where
  "handler_body env project_id req =
     bind (pure (find_project env project_id)) (\<lambda>proj.
       case proj of
         None \<Rightarrow> pure (Inr (not_found ''Project''))
       | Some _ \<Rightarrow>
           bind (pure (parse_request req)) (\<lambda>(prompt_text, ref_file, extra_files).
             if prompt_text = [] then pure (Inr (bad_request ''prompt is required''))
             else
               bind (acquire_workspace env) (\<lambda>td.
               finally_cleanup td
                 (try_body env project_id prompt_text ref_file extra_files td))))"

text \<open>
  The handler: the response and the state it leaves. The \<open>except Exception\<close> clause
  rolls back and answers 503 with the message of the exception.
\<close>

definition generate_material_image ::
  "'img env \<Rightarrow> string \<Rightarrow> request \<Rightarrow> world \<Rightarrow> response \<times> world" where
  "generate_material_image env project_id req w =
     (case handler_body env project_id req w of
        (Inl e, w') \<Rightarrow> (error_response ''AI_SERVICE_ERROR'' e 503, db_rollback w')
      | (Inr r, w') \<Rightarrow> (r, w'))"

section \<open>Vocabulary of the specification\<close>

text \<open>
  The path under which the specification says an uploaded file is stored: the
  workspace joined with the sanitised declared name.
\<close>

definition stored_path :: "'img env \<Rightarrow> string \<Rightarrow> file_storage \<Rightarrow> string" where
  "stored_path env td f = path_join td (secure_filename (nfkd env) (filename f))"

text \<open>
  The primary reference path of the specification: absent unless a primary file was
  supplied with a non-empty name.
\<close>

definition spec_primary_path ::
  "'img env \<Rightarrow> string \<Rightarrow> file_storage option \<Rightarrow> string option" where
  "spec_primary_path env td ref_file =
     (case ref_file of
        None \<Rightarrow> None
      | Some f \<Rightarrow> if filename f = [] then None else Some (stored_path env td f))"

text \<open>
  The additional reference paths of the specification: the stored paths of the entries
  with a non-empty name, in input order.
\<close>

definition spec_additional_paths ::
  "'img env \<Rightarrow> string \<Rightarrow> file_storage list \<Rightarrow> string list" where
  "spec_additional_paths env td extra_files =
     map (stored_path env td) (filter (\<lambda>f. filename f \<noteq> []) extra_files)"

text \<open>The arguments the specification prescribes for the synthesis call.\<close>

definition spec_args ::
  "'img env \<Rightarrow> string \<Rightarrow> string \<Rightarrow> file_storage option \<Rightarrow> file_storage list \<Rightarrow> ai_args
     \<Rightarrow> bool" where
  "spec_args env td p rf efs args \<longleftrightarrow>
     prompt args = p \<and>
     ref_image_path args = spec_primary_path env td rf \<and>
     additional_ref_images args =
       (if spec_additional_paths env td efs = [] then None
        else Some (spec_additional_paths env td efs))"

text \<open>
  An exception \<open>e\<close> raised after the synthesis call returned \<open>img\<close>: by the storage of the
  image, by the derivation of its URL, or by the commit.
\<close>

definition after_image_raises :: "'img env \<Rightarrow> string \<Rightarrow> 'img \<Rightarrow> exn \<Rightarrow> bool" where
  "after_image_raises env pid img e \<longleftrightarrow>
     save_material_image env img pid = Inl e \<or>
     (\<exists>rel. save_material_image env img pid = Inr rel \<and>
        (get_file_url env pid ''materials'' (path_name rel) = Inl e \<or>
         (\<exists>url. get_file_url env pid ''materials'' (path_name rel) = Inr url \<and>
                commit env = Some e)))"

text \<open>
  The prompt text a request supplies, before trimming: the form field \<open>prompt\<close> (empty
  when missing), or the string under \<open>prompt\<close> of a JSON object (empty when missing, and
  when the body is falsy). A JSON body that cannot be parsed, is not an object, or holds
  a prompt that is not a string supplies none.
\<close>

fun supplied_prompt :: "request \<Rightarrow> string option" where
  "supplied_prompt (FormRequest form fs) =
     Some (case map_of form ''prompt'' of None \<Rightarrow> [] | Some v \<Rightarrow> v)"
| "supplied_prompt (JsonRequest (Inl e)) = None"
| "supplied_prompt (JsonRequest (Inr (JObj kvs))) =
     (case map_of kvs ''prompt'' of
        None \<Rightarrow> Some []
      | Some (JStr s) \<Rightarrow> Some s
      | Some _ \<Rightarrow> None)"
| "supplied_prompt (JsonRequest (Inr j)) = (if json_truthy j then None else Some [])"

text \<open>The primary reference file a request supplies; a JSON request has none.\<close>

fun uploaded_primary :: "request \<Rightarrow> file_storage option" where
  "uploaded_primary (FormRequest form fs) = map_of fs ''ref_image''"
| "uploaded_primary (JsonRequest body) = None"

text \<open>The additional reference entries of a request, in the order sent.\<close>

fun uploaded_extras :: "request \<Rightarrow> file_storage list" where
  "uploaded_extras (FormRequest form fs) = getlist ''extra_images'' fs"
| "uploaded_extras (JsonRequest body) = []"

section \<open>A concrete deployment, for the scenarios\<close>

text \<open>
  One project \<open>p1\<close>, a complete configuration, an upload folder \<open>/up\<close>, and
  collaborators that all succeed.
\<close>

definition demo_env :: "string env" where
  "demo_env =
     \<lparr>find_project = (\<lambda>pid. Inr (if pid = ''p1'' then Some \<lparr>updated_at = 0\<rparr> else None)),
      config = map_of [(''GOOGLE_API_KEY'', ''k''), (''GOOGLE_API_BASE'', ''b''),
                       (''UPLOAD_FOLDER'', ''/up''), (''DEFAULT_ASPECT_RATIO'', ''16:9''),
                       (''DEFAULT_RESOLUTION'', ''2K'')],
      new_ai_service = (\<lambda>k b. None),
      new_file_service = (\<lambda>d. None),
      mkdtemp = (\<lambda>d. Inr (d @ ''/tmpab'')),
      nfkd = id,
      save_error = (\<lambda>p. None),
      generate_image = (\<lambda>args. Inr (Some ''img'')),
      save_material_image = (\<lambda>img pid. Inr (pid @ ''/materials/gen.png'')),
      get_file_url = (\<lambda>pid cat fn. Inr (''/files/'' @ pid @ ''/'' @ cat @ ''/'' @ fn)),
      commit = None\<rparr>"

text \<open>The same deployment with a synthesis capability that returns no image.\<close>

definition demo_env_no_image :: "string env" where
  "demo_env_no_image = demo_env\<lparr>generate_image := (\<lambda>args. Inr None)\<rparr>"

text \<open>The same deployment with a synthesis capability that raises.\<close>

definition demo_env_raising :: "string env" where
  "demo_env_raising = demo_env\<lparr>generate_image := (\<lambda>args. Inl ''timeout'')\<rparr>"

definition world0 :: world where
  "world0 = \<lparr>dirs = {''/up''}, files = Map.empty, log = []\<rparr>"

text \<open>Scenario A: the JSON body \<open>{"prompt": "a red cube"}\<close>.\<close>

definition red_cube :: request where
  "red_cube = JsonRequest (Inr (JObj [(''prompt'', JStr ''a red cube'')]))"

text \<open>A JSON body whose prompt is whitespace only.\<close>

definition blank_prompt :: request where
  "blank_prompt = JsonRequest (Inr (JObj [(''prompt'', JStr ''  '')]))"

text \<open>The arguments of the synthesis call that scenario A makes.\<close>

definition red_cube_args :: ai_args where
  "red_cube_args =
     \<lparr>prompt = ''a red cube'', ref_image_path = None, aspect_ratio = ''16:9'',
      resolution = ''2K'', additional_ref_images = None\<rparr>"

text \<open>
  A multipart request with a prompt to trim and a primary reference whose declared
  name holds path-traversal segments (scenario F), and the synthesis call it leads to.
\<close>

definition cat_with_reference :: request where
  "cat_with_reference =
     FormRequest [(''prompt'', '' a cat '')]
       [(''ref_image'', \<lparr>filename = ''../../evil.png'', content = ''bytes''\<rparr>)]"

definition cat_args :: ai_args where
  "cat_args =
     \<lparr>prompt = ''a cat'', ref_image_path = Some ''/up/tmpab/evil.png'',
      aspect_ratio = ''16:9'', resolution = ''2K'', additional_ref_images = None\<rparr>"

text \<open>
  A path lies strictly inside the directory \<open>td\<close>: it is \<open>td\<close>, a separator, and one
  proper component (not empty, without separator, neither \<open>.\<close> nor \<open>..\<close>).
\<close>

definition strictly_inside :: "string \<Rightarrow> string \<Rightarrow> bool" where
  "strictly_inside td p =
     (take (length td + 1) p = td @ ''/'' \<and>
      (let name = drop (length td + 1) p
       in name \<noteq> [] \<and> CHR ''/'' \<notin> set name \<and> name \<noteq> ''.'' \<and> name \<noteq> ''..''))"

text \<open>A multipart request whose primary reference is declared under the name \<open>../..\<close>.\<close>

definition dots_upload :: request where
  "dots_upload =
     FormRequest [(''prompt'', ''x'')]
       [(''ref_image'', \<lparr>filename = ''../..'', content = ''bytes''\<rparr>)]"

text \<open>The uploaded file of scenario F.\<close>

definition evil_upload :: file_storage where
  "evil_upload = \<lparr>filename = ''../../evil.png'', content = ''bytes''\<rparr>"

text \<open>
  The bytes the specification expects at a path once the files \<open>fs\<close> have been
  materialised in order: those of the last file with a non-empty name that is stored at
  that path, none when no such file is.
\<close>

definition written :: "'img env \<Rightarrow> string \<Rightarrow> file_storage list \<Rightarrow> string \<Rightarrow> string option" where
  "written env td fs p =
     (let gs = filter (\<lambda>f. filename f \<noteq> [] \<and> stored_path env td f = p) fs
      in if gs = [] then None else Some (content (last gs)))"



text \<open>
  Modelled from the spec: \<open>FileService.save_material_image\<close> is not part of the sources.
  The spec (4.4) has the storage capability return a relative path of the form
  \<open>{projectId}/materials/{generatedFileName}\<close>, any failure of it propagating. The
  generated file name, or the failure, is the parameter \<open>generated\<close>.
\<close>

definition spec_save_material_image ::
  "('img \<Rightarrow> exn + string) \<Rightarrow> 'img \<Rightarrow> string \<Rightarrow> exn + string" where
  "spec_save_material_image generated img project_id =
     (case generated img of
        Inl e \<Rightarrow> Inl e
      | Inr file_name \<Rightarrow> Inr (project_id @ ''/materials/'' @ file_name))"

text \<open>A file name: one path segment, not empty, and not the segment \<open>.\<close>.\<close>

definition is_file_name :: "string \<Rightarrow> bool" where
  "is_file_name n = (n \<noteq> [] \<and> CHR ''/'' \<notin> set n \<and> n \<noteq> ''.'')"

text \<open>The state right after the temporary directory \<open>/up/tmpab\<close> was created.\<close>

definition world1 :: world where
  "world1 = \<lparr>dirs = {''/up'', ''/up/tmpab''}, files = Map.empty, log = [TempDir ''/up/tmpab'']\<rparr>"

text \<open>A multipart request with one additional reference declared under the name \<open>..\<close>.\<close>

definition dots_extra :: request where
  "dots_extra =
     FormRequest [(''prompt'', ''x'')]
       [(''extra_images'', \<lparr>filename = ''..'', content = ''bytes''\<rparr>)]"

text \<open>
  Scenario C: two additional references with a name, and between them an entry whose
  name is empty; then the synthesis call this request leads to.
\<close>

definition two_extras :: request where
  "two_extras =
     FormRequest [(''prompt'', ''two cats'')]
       [(''extra_images'', \<lparr>filename = ''a.png'', content = ''first''\<rparr>),
        (''extra_images'', \<lparr>filename = '''', content = ''nameless''\<rparr>),
        (''extra_images'', \<lparr>filename = ''b.png'', content = ''second''\<rparr>)]"

definition two_extras_args :: ai_args where
  "two_extras_args =
     \<lparr>prompt = ''two cats'', ref_image_path = None, aspect_ratio = ''16:9'',
      resolution = ''2K'',
      additional_ref_images = Some [''/up/tmpab/a.png'', ''/up/tmpab/b.png'']\<rparr>"





section \<open>How a run of the handler unfolds\<close>

lemma bind_pure_Inl: "bind (pure (Inl e)) f w = (Inl e, w)"
  by (simp add: bind_def pure_def)

lemma bind_pure_Inr: "bind (pure (Inr a)) f w = f a w"
  by (simp add: bind_def pure_def)

lemma bindE:
  assumes "bind m f w = (r, w')"
  obtains (raised) e where "m w = (Inl e, w')" "r = Inl e"
        | (continued) a w1 where "m w = (Inr a, w1)" "f a w1 = (r, w')"
  using assms by (auto simp: bind_def split: prod.splits sum.splits)

lemma dropWhile_all_iff: "rev (dropWhile P (rev (dropWhile P s))) = [] \<longleftrightarrow> (\<forall>c\<in>set s. P c)"
proof
  assume a: "rev (dropWhile P (rev (dropWhile P s))) = []"
  show "\<forall>c\<in>set s. P c"
  proof (cases "dropWhile P s = []")
    case True
    then show ?thesis by (simp add: dropWhile_eq_Nil_conv)
  next
    case False
    then have "\<not> P (hd (dropWhile P s))" by (rule hd_dropWhile)
    moreover from a have "\<forall>x\<in>set (dropWhile P s). P x"
      by (simp add: dropWhile_eq_Nil_conv)
    ultimately show ?thesis using False by (metis hd_in_set)
  qed
next
  assume "\<forall>c\<in>set s. P c"
  then have d: "dropWhile P s = []" by (simp only: dropWhile_eq_Nil_conv)
  show "rev (dropWhile P (rev (dropWhile P s))) = []" unfolding d by simp
qed

lemma py_strip_empty_iff: "py_strip s = [] \<longleftrightarrow> (\<forall>c\<in>set s. py_isspace c)"
  unfolding py_strip_def by (rule dropWhile_all_iff)

lemma strip_chars_subset: "set (strip_chars cs s) \<subseteq> set s"
proof -
  have "set (dropWhile P xs) \<subseteq> set xs" for P and xs :: string
    by (meson set_dropWhileD subsetI)
  then show ?thesis unfolding strip_chars_def
    by (metis (no_types, lifting) set_rev subset_trans)
qed

lemma strip_chars_last: 
  assumes "strip_chars cs s \<noteq> []" shows "last (strip_chars cs s) \<notin> set cs"
proof -
  let ?P = "\<lambda>c. c \<in> set cs"
  let ?d = "dropWhile ?P (rev (dropWhile ?P s))"
  from assms have ne: "?d \<noteq> []" by (simp add: strip_chars_def)
  then have "\<not> ?P (hd ?d)" by (rule hd_dropWhile)
  moreover have "last (strip_chars cs s) = hd ?d"
    using ne by (simp add: strip_chars_def last_rev)
  ultimately show ?thesis by simp
qed

lemma secure_filename_chars: "c \<in> set (secure_filename n s) \<Longrightarrow> filename_char_ok c"
  using strip_chars_subset[of "''._''"] by (fastforce simp: secure_filename_def)

lemma slash_not_ok: "\<not> filename_char_ok CHR ''/''"
  by (simp add: filename_char_ok_def)

lemma secure_filename_no_sep: "CHR ''/'' \<notin> set (secure_filename n s)"
  using secure_filename_chars slash_not_ok by blast

lemma secure_filename_last: "secure_filename n s \<noteq> [] \<Longrightarrow> last (secure_filename n s) \<noteq> CHR ''.''"
  using strip_chars_last[of "''._''"] by (fastforce simp: secure_filename_def)

lemma secure_filename_not_dots:
  "secure_filename n s \<noteq> ''.''" "secure_filename n s \<noteq> ''..''"
  using secure_filename_last[of n s] by auto

lemma split_sep_no_sep: "CHR ''/'' \<notin> set s \<Longrightarrow> split_sep w s = [w @ s]"
  by (induction s arbitrary: w) auto

lemma path_join_plain:
  assumes "CHR ''/'' \<notin> set s" "s \<noteq> []" "s \<noteq> ''.''"
  shows "path_join td s = td @ ''/'' @ s"
proof -
  have "split_sep [] s = [s]" using assms(1) split_sep_no_sep[of s "[]"] by simp
  then have parts: "path_parts s = [s]" using assms by (simp add: path_parts_def)
  have "hd s \<noteq> CHR ''/''" using assms by (cases s) auto
  then have "path_root s = []" using assms(2) by (cases s) (auto simp: path_root_def)
  with parts show ?thesis by (simp add: path_join_def)
qed

lemma path_join_empty: "path_join td [] = td"
  by (simp add: path_join_def path_root_def path_parts_def)

lemma file_save_frame:
  "file_save env f p w = (r, w') \<Longrightarrow> log w' = log w \<and> dirs w' = dirs w"
  by (auto simp: file_save_def split: if_splits option.splits)

lemma file_save_Inr:
  "file_save env f p w = (Inr u, w') \<Longrightarrow>
     p \<notin> dirs w \<and> save_error env p = None \<and> w' = w\<lparr>files := (files w)(p \<mapsto> content f)\<rparr>"
  by (auto simp: file_save_def split: if_splits option.splits)

lemma save_ref_frame:
  "save_ref env td rf w = (r, w') \<Longrightarrow> log w' = log w \<and> dirs w' = dirs w"
  by (auto simp: save_ref_def pure_def bind_def Let_def dest: file_save_frame
      split: option.splits if_splits prod.splits sum.splits)

lemma save_ref_Inr:
  "save_ref env td rf w = (Inr rp, w') \<Longrightarrow> rp = spec_primary_path env td rf"
  by (auto simp: save_ref_def pure_def bind_def Let_def spec_primary_path_def stored_path_def
      split: option.splits if_splits prod.splits sum.splits)

lemma save_extras_frame:
  "save_extras env td efs acc w = (r, w') \<Longrightarrow> log w' = log w \<and> dirs w' = dirs w"
proof (induction efs arbitrary: acc w)
  case Nil
  then show ?case by (simp add: pure_def)
next
  case (Cons extra rest)
  show ?case
  proof (cases "filename extra = []")
    case True
    with Cons show ?thesis by simp
  next
    case False
    with Cons.prems show ?thesis
      by (auto simp: Let_def elim!: bindE dest!: file_save_frame Cons.IH)
  qed
qed

lemma save_extras_Inr:
  "save_extras env td efs acc w = (Inr ps, w') \<Longrightarrow> ps = acc @ spec_additional_paths env td efs"
proof (induction efs arbitrary: acc w)
  case Nil
  then show ?case by (simp add: pure_def spec_additional_paths_def)
next
  case (Cons extra rest)
  show ?case
  proof (cases "filename extra = []")
    case True
    with Cons show ?thesis by (simp add: spec_additional_paths_def)
  next
    case False
    with Cons.prems show ?thesis
      by (auto simp: Let_def spec_additional_paths_def stored_path_def elim!: bindE dest!: Cons.IH)
  qed
qed

lemma db_commit_run:
  "db_commit env w = (r, w') \<Longrightarrow>
     (\<exists>e. commit env = Some e \<and> r = Inl e \<and> w' = w) \<or>
     (commit env = None \<and> r = Inr () \<and> w' = w\<lparr>log := log w @ [Commit]\<rparr>)"
  by (auto simp: db_commit_def split: option.splits)

lemma persist_run:
  assumes "persist env pid img w = (r, w')"
  shows "(\<exists>e. r = Inl e \<and> w' = w \<and>
            (save_material_image env img pid = Inl e \<or>
             (\<exists>rel. save_material_image env img pid = Inr rel \<and>
                (get_file_url env pid ''materials'' (path_name rel) = Inl e \<or>
                 (\<exists>url. get_file_url env pid ''materials'' (path_name rel) = Inr url \<and>
                        commit env = Some e))))) \<or>
         (\<exists>rel url. save_material_image env img pid = Inr rel \<and>
            get_file_url env pid ''materials'' (path_name rel) = Inr url \<and>
            commit env = None \<and>
            r = Inr (success_response url rel) \<and> w' = w\<lparr>log := log w @ [Commit]\<rparr>)"
proof (cases "save_material_image env img pid")
  case (Inl e)
  with assms show ?thesis by (simp add: persist_def bind_pure_Inl)
next
  case (Inr rel)
  note rel = this
  show ?thesis
  proof (cases "get_file_url env pid ''materials'' (path_name rel)")
    case (Inl e)
    with assms rel show ?thesis by (simp add: persist_def bind_pure_Inl bind_pure_Inr)
  next
    case (Inr url)
    with assms rel have "bind (db_commit env) (\<lambda>_. pure (Inr (success_response url rel))) w = (r, w')"
      by (simp add: persist_def bind_pure_Inr)
    then show ?thesis
    proof (cases rule: bindE)
      case (raised e)
      with db_commit_run[OF raised(1)] rel Inr show ?thesis by auto
    next
      case (continued a w1)
      with db_commit_run[OF continued(1)] rel Inr show ?thesis by (auto simp: pure_def)
    qed
  qed
qed

lemma synthesize_run:
  assumes "synthesize env pid p rp add w = (r, w')"
  shows "(\<exists>e. r = Inl e \<and> w' = w) \<or>
    (\<exists>args. prompt args = p \<and> ref_image_path args = rp \<and>
       additional_ref_images args = (if add = [] then None else Some add) \<and>
       ((w' = w\<lparr>log := log w @ [Generate args]\<rparr> \<and>
           ((\<exists>e. r = Inl e \<and>
               (generate_image env args = Inl e \<or>
                (\<exists>img. generate_image env args = Inr (Some img) \<and> after_image_raises env pid img e))) \<or>
            (generate_image env args = Inr None \<and>
             r = Inr (error_response ''AI_SERVICE_ERROR'' ''Failed to generate image'' 503)))) \<or>
        (\<exists>img rel url.
           w' = w\<lparr>log := log w @ [Generate args, Commit]\<rparr> \<and>
           generate_image env args = Inr (Some img) \<and>
           save_material_image env img pid = Inr rel \<and>
           get_file_url env pid ''materials'' (path_name rel) = Inr url \<and>
           commit env = None \<and>
           r = Inr (success_response url rel))))"
proof (cases "config_get (config env) ''DEFAULT_ASPECT_RATIO''")
  case (Inl e)
  with assms have "r = Inl e" "w' = w" by (auto simp: synthesize_def bind_pure_Inl)
  then show ?thesis by blast
next
  case (Inr ratio)
  note ratio = this
  show ?thesis
  proof (cases "config_get (config env) ''DEFAULT_RESOLUTION''")
    case (Inl e)
    with assms ratio have "r = Inl e" "w' = w"
      by (auto simp: synthesize_def bind_pure_Inl bind_pure_Inr)
    then show ?thesis by blast
  next
    case (Inr res)
    define args where "args = \<lparr>prompt = p, ref_image_path = rp, aspect_ratio = ratio,
              resolution = res,
              additional_ref_images = (if add = [] then None else Some add)\<rparr>"
    define w1 where "w1 = w\<lparr>log := log w @ [Generate args]\<rparr>"
    have a: "prompt args = p" "ref_image_path args = rp"
      "additional_ref_images args = (if add = [] then None else Some add)"
      by (simp_all add: args_def)
    have "synthesize env pid p rp add w =
      (case generate_image env args of
          Inl e \<Rightarrow> (Inl e, w1)
        | Inr im \<Rightarrow>
           (case im of
              None \<Rightarrow> (Inr (error_response ''AI_SERVICE_ERROR'' ''Failed to generate image'' 503), w1)
            | Some img \<Rightarrow> persist env pid img w1))"
      unfolding synthesize_def args_def w1_def
      by (simp add: ratio Inr bind_pure_Inr bind_def call_generate_image_def pure_def
          split del: if_split split: sum.split option.split)
    with assms have run:
      "(case generate_image env args of
          Inl e \<Rightarrow> (Inl e, w1)
        | Inr im \<Rightarrow>
           (case im of
              None \<Rightarrow> (Inr (error_response ''AI_SERVICE_ERROR'' ''Failed to generate image'' 503), w1)
            | Some img \<Rightarrow> persist env pid img w1)) = (r, w')"
      by simp
    show ?thesis
    proof (cases "generate_image env args")
      case (Inl e)
      with run a show ?thesis unfolding w1_def by auto
    next
      case (Inr im)
      note im = this
      show ?thesis
      proof (cases im)
        case None
        with run im a show ?thesis unfolding w1_def by auto
      next
        case (Some img)
        with run im have "persist env pid img w1 = (r, w')" by simp
        from persist_run[OF this] show ?thesis
        proof
          assume "\<exists>e. r = Inl e \<and> w' = w1 \<and>
            (save_material_image env img pid = Inl e \<or>
             (\<exists>rel. save_material_image env img pid = Inr rel \<and>
                (get_file_url env pid ''materials'' (path_name rel) = Inl e \<or>
                 (\<exists>url. get_file_url env pid ''materials'' (path_name rel) = Inr url \<and>
                        commit env = Some e))))"
          then obtain e where "r = Inl e" "w' = w1" "after_image_raises env pid img e"
            unfolding after_image_raises_def by blast
          with a im Some show ?thesis unfolding w1_def by blast
        next
          assume "\<exists>rel url. save_material_image env img pid = Inr rel \<and>
            get_file_url env pid ''materials'' (path_name rel) = Inr url \<and>
            commit env = None \<and>
            r = Inr (success_response url rel) \<and> w' = w1\<lparr>log := log w1 @ [Commit]\<rparr>"
          then obtain rel url where "save_material_image env img pid = Inr rel"
            "get_file_url env pid ''materials'' (path_name rel) = Inr url"
            "commit env = None" "r = Inr (success_response url rel)"
            "w' = w\<lparr>log := log w @ [Generate args, Commit]\<rparr>"
            unfolding w1_def by auto
          with a im Some show ?thesis by blast
        qed
      qed
    qed
  qed
qed

lemma try_body_run:
  assumes "try_body env pid p rf efs td w = (r, w')"
  shows "dirs w' = dirs w \<and>
    ((\<exists>e. r = Inl e \<and> log w' = log w) \<or>
     (\<exists>args. spec_args env td p rf efs args \<and>
        ((log w' = log w @ [Generate args] \<and>
            ((\<exists>e. r = Inl e \<and>
                 (generate_image env args = Inl e \<or>
                  (\<exists>img. generate_image env args = Inr (Some img) \<and> after_image_raises env pid img e))) \<or>
             (generate_image env args = Inr None \<and>
              r = Inr (error_response ''AI_SERVICE_ERROR'' ''Failed to generate image'' 503)))) \<or>
         (\<exists>img rel url.
            log w' = log w @ [Generate args, Commit] \<and>
            generate_image env args = Inr (Some img) \<and>
            save_material_image env img pid = Inr rel \<and>
            get_file_url env pid ''materials'' (path_name rel) = Inr url \<and>
            commit env = None \<and>
            r = Inr (success_response url rel)))))"
  using assms unfolding try_body_def
proof (cases rule: bindE)
  case (raised e)
  then show ?thesis using save_ref_frame[of env td rf w "Inl e" w'] by simp
next
  case (continued rp w1)
  note ref = this
  have f1: "log w1 = log w" "dirs w1 = dirs w" using save_ref_frame[OF ref(1)] by simp_all
  have rp: "rp = spec_primary_path env td rf" using save_ref_Inr[OF ref(1)] .
  from ref(2) show ?thesis
  proof (cases rule: bindE)
    case (raised e)
    then show ?thesis using save_extras_frame[of env td efs "[]" w1 "Inl e" w'] f1 by simp
  next
    case (continued ps w2)
    note ex = this
    have f2: "log w2 = log w" "dirs w2 = dirs w" using save_extras_frame[OF ex(1)] f1 by simp_all
    have ps: "ps = spec_additional_paths env td efs" using save_extras_Inr[OF ex(1)] by simp
    from synthesize_run[OF ex(2)] show ?thesis
    proof
      assume "\<exists>e. r = Inl e \<and> w' = w2"
      with f2 show ?thesis by auto
    next
      assume "\<exists>args. prompt args = p \<and> ref_image_path args = rp \<and>
       additional_ref_images args = (if ps = [] then None else Some ps) \<and>
       ((w' = w2\<lparr>log := log w2 @ [Generate args]\<rparr> \<and>
           ((\<exists>e. r = Inl e \<and>
               (generate_image env args = Inl e \<or>
                (\<exists>img. generate_image env args = Inr (Some img) \<and> after_image_raises env pid img e))) \<or>
            (generate_image env args = Inr None \<and>
             r = Inr (error_response ''AI_SERVICE_ERROR'' ''Failed to generate image'' 503)))) \<or>
        (\<exists>img rel url.
           w' = w2\<lparr>log := log w2 @ [Generate args, Commit]\<rparr> \<and>
           generate_image env args = Inr (Some img) \<and>
           save_material_image env img pid = Inr rel \<and>
           get_file_url env pid ''materials'' (path_name rel) = Inr url \<and>
           commit env = None \<and>
           r = Inr (success_response url rel)))"
      then obtain args where sa: "spec_args env td p rf efs args"
        and rest: "(w' = w2\<lparr>log := log w2 @ [Generate args]\<rparr> \<and>
           ((\<exists>e. r = Inl e \<and>
               (generate_image env args = Inl e \<or>
                (\<exists>img. generate_image env args = Inr (Some img) \<and> after_image_raises env pid img e))) \<or>
            (generate_image env args = Inr None \<and>
             r = Inr (error_response ''AI_SERVICE_ERROR'' ''Failed to generate image'' 503)))) \<or>
        (\<exists>img rel url.
           w' = w2\<lparr>log := log w2 @ [Generate args, Commit]\<rparr> \<and>
           generate_image env args = Inr (Some img) \<and>
           save_material_image env img pid = Inr rel \<and>
           get_file_url env pid ''materials'' (path_name rel) = Inr url \<and>
           commit env = None \<and>
           r = Inr (success_response url rel))"
        unfolding spec_args_def rp ps by blast
      from rest show ?thesis
      proof
        assume a: "w' = w2\<lparr>log := log w2 @ [Generate args]\<rparr> \<and>
           ((\<exists>e. r = Inl e \<and>
               (generate_image env args = Inl e \<or>
                (\<exists>img. generate_image env args = Inr (Some img) \<and> after_image_raises env pid img e))) \<or>
            (generate_image env args = Inr None \<and>
             r = Inr (error_response ''AI_SERVICE_ERROR'' ''Failed to generate image'' 503)))"
        then have "dirs w' = dirs w" "log w' = log w @ [Generate args]" using f2 by simp_all
        with a sa show ?thesis by blast
      next
        assume "\<exists>img rel url.
           w' = w2\<lparr>log := log w2 @ [Generate args, Commit]\<rparr> \<and>
           generate_image env args = Inr (Some img) \<and>
           save_material_image env img pid = Inr rel \<and>
           get_file_url env pid ''materials'' (path_name rel) = Inr url \<and>
           commit env = None \<and>
           r = Inr (success_response url rel)"
        then obtain img rel url where b: "w' = w2\<lparr>log := log w2 @ [Generate args, Commit]\<rparr>"
           "generate_image env args = Inr (Some img)"
           "save_material_image env img pid = Inr rel"
           "get_file_url env pid ''materials'' (path_name rel) = Inr url"
           "commit env = None"
           "r = Inr (success_response url rel)" by blast
        then have "dirs w' = dirs w" "log w' = log w @ [Generate args, Commit]" using f2 by simp_all
        with b sa show ?thesis by blast
      qed
    qed
  qed
qed

lemma make_temp_dir_run:
  assumes "make_temp_dir env d w = (r, w')"
  shows "(\<exists>e. r = Inl e \<and> w' = w) \<or>
     (\<exists>td. r = Inr td \<and> mkdtemp env d = Inr td \<and>
        w' = w\<lparr>dirs := insert td (dirs w), log := log w @ [TempDir td]\<rparr>)"
proof (cases "mkdtemp env d")
  case (Inl e)
  with assms have "r = Inl e" "w' = w" by (simp_all add: make_temp_dir_def)
  then show ?thesis by blast
next
  case (Inr td)
  with assms have "r = Inr td" "w' = w\<lparr>dirs := insert td (dirs w), log := log w @ [TempDir td]\<rparr>"
    by (simp_all add: make_temp_dir_def)
  with Inr show ?thesis by blast
qed

lemma acquire_workspace_run:
  assumes "acquire_workspace env w = (r, w')"
  shows "(\<exists>e. r = Inl e \<and> w' = w) \<or>
     (\<exists>td. r = Inr td \<and> w' = w\<lparr>dirs := insert td (dirs w), log := log w @ [TempDir td]\<rparr>)"
proof -
  have pure_bind: "bind (pure x) f w = (r, w') \<Longrightarrow>
      (\<exists>e. x = Inl e \<and> r = Inl e \<and> w' = w) \<or> (\<exists>a. x = Inr a \<and> f a w = (r, w'))"
    for x :: "exn + 'b" and f :: "'b \<Rightarrow> string step"
    by (cases x) (auto simp: bind_pure_Inl bind_pure_Inr)
  from assms show ?thesis
    unfolding acquire_workspace_def
    by (auto dest!: pure_bind make_temp_dir_run)
qed

lemma finally_cleanup_run:
  assumes "finally_cleanup td body w = (r, w')"
  shows "\<exists>w1. body w = (r, w1) \<and> log w' = log w1 \<and> \<not> path_exists w' td \<and>
           w' = (if path_exists w1 td then rmtree td w1 else w1)"
proof -
  obtain r1 w1 where b: "body w = (r1, w1)" by (cases "body w")
  with assms have r: "r = r1" and w': "w' = (if path_exists w1 td then rmtree td w1 else w1)"
    by (simp_all add: finally_cleanup_def)
  have "\<not> path_exists (rmtree td w1) td"
    by (simp add: path_exists_def rmtree_def under_def)
  moreover have "log (rmtree td w1) = log w1" by (simp add: rmtree_def)
  ultimately show ?thesis using b r w' by auto
qed

lemma handler_body_run:
  assumes "handler_body env pid req w = (r, w')"
  shows "(w' = w \<and>
           ((\<exists>e. r = Inl e) \<or>
            (find_project env pid = Inr None \<and> r = Inr (not_found ''Project'')) \<or>
            (\<exists>proj rf efs. find_project env pid = Inr (Some proj) \<and>
               parse_request req = Inr ([], rf, efs) \<and>
               r = Inr (bad_request ''prompt is required'')))) \<or>
         (\<exists>proj p rf efs td w2.
            find_project env pid = Inr (Some proj) \<and>
            parse_request req = Inr (p, rf, efs) \<and> p \<noteq> [] \<and>
            try_body env pid p rf efs td
              (w\<lparr>dirs := insert td (dirs w), log := log w @ [TempDir td]\<rparr>) = (r, w2) \<and>
            log w' = log w2 \<and> \<not> path_exists w' td \<and>
            w' = (if path_exists w2 td then rmtree td w2 else w2))"
proof (cases "find_project env pid")
  case (Inl e)
  with assms have "r = Inl e" "w' = w" by (simp_all add: handler_body_def bind_pure_Inl)
  then show ?thesis by blast
next
  case (Inr proj)
  note fp = this
  show ?thesis
  proof (cases proj)
    case None
    with assms fp have "r = Inr (not_found ''Project'')" "w' = w"
      by (simp_all add: handler_body_def bind_pure_Inr pure_def)
    with fp None show ?thesis by blast
  next
    case (Some pr)
    note pr = this
    show ?thesis
    proof (cases "parse_request req")
      case (Inl e)
      with assms fp pr have "r = Inl e" "w' = w"
        by (simp_all add: handler_body_def bind_pure_Inr bind_pure_Inl)
      then show ?thesis by blast
    next
      case (Inr parsed)
      obtain p rf efs where parsed: "parsed = (p, rf, efs)" by (cases parsed)
      show ?thesis
      proof (cases "p = []")
        case True
        with assms fp pr Inr parsed have "r = Inr (bad_request ''prompt is required'')" "w' = w"
          by (simp_all add: handler_body_def bind_pure_Inr pure_def)
        with fp pr Inr parsed True show ?thesis by blast
      next
        case False
        with assms fp pr Inr parsed have
          "bind (acquire_workspace env)
             (\<lambda>td. finally_cleanup td (try_body env pid p rf efs td)) w = (r, w')"
          by (simp add: handler_body_def bind_pure_Inr)
        then show ?thesis
        proof (cases rule: bindE)
          case (raised e)
          with acquire_workspace_run[OF raised(1)] have "r = Inl e" "w' = w" by auto
          then show ?thesis by blast
        next
          case (continued td w1)
          from acquire_workspace_run[OF continued(1)]
          have w1: "w1 = w\<lparr>dirs := insert td (dirs w), log := log w @ [TempDir td]\<rparr>" by auto
          from finally_cleanup_run[OF continued(2)] obtain w2 where
            "try_body env pid p rf efs td w1 = (r, w2)" "log w' = log w2"
            "\<not> path_exists w' td" "w' = (if path_exists w2 td then rmtree td w2 else w2)"
            by blast
          with fp pr Inr parsed False w1 show ?thesis by blast
        qed
      qed
    qed
  qed
qed

lemma gmi_cases:
  assumes "generate_material_image env pid req w = (resp, w')"
  shows "\<exists>r w1. handler_body env pid req w = (r, w1) \<and>
           ((\<exists>e. r = Inl e \<and> resp = error_response ''AI_SERVICE_ERROR'' e 503 \<and>
                 w' = db_rollback w1) \<or>
            (r = Inr resp \<and> w' = w1))"
proof -
  obtain r w1 where h: "handler_body env pid req w = (r, w1)" by (cases "handler_body env pid req w")
  show ?thesis
  proof (cases r)
    case (Inl e)
    with assms h show ?thesis by (auto simp: generate_material_image_def)
  next
    case (Inr x)
    with assms h show ?thesis by (auto simp: generate_material_image_def)
  qed
qed

lemma db_rollback_simps:
  "log (db_rollback w) = log w @ [Rollback]"
  "dirs (db_rollback w) = dirs w"
  "files (db_rollback w) = files w"
  "path_exists (db_rollback w) p = path_exists w p"
  by (simp_all add: db_rollback_def path_exists_def)

lemma gmi_run:
  assumes "generate_material_image env pid req w = (resp, w')"
  shows "\<exists>evs. log w' = log w @ evs \<and>
    ((evs = [] \<and> w' = w \<and> handler_body env pid req w = (Inr resp, w) \<and>
        ((find_project env pid = Inr None \<and> resp = not_found ''Project'') \<or>
         (\<exists>proj rf efs. find_project env pid = Inr (Some proj) \<and>
            parse_request req = Inr ([], rf, efs) \<and>
            resp = bad_request ''prompt is required''))) \<or>
     (evs = [Rollback] \<and> w' = db_rollback w \<and>
        (\<exists>e. handler_body env pid req w = (Inl e, w) \<and>
             resp = error_response ''AI_SERVICE_ERROR'' e 503)) \<or>
     (\<exists>proj p rf efs td.
        find_project env pid = Inr (Some proj) \<and>
        parse_request req = Inr (p, rf, efs) \<and> p \<noteq> [] \<and> \<not> path_exists w' td \<and>
        ((evs = [TempDir td, Rollback] \<and>
            (\<exists>e w1. handler_body env pid req w = (Inl e, w1) \<and>
               resp = error_response ''AI_SERVICE_ERROR'' e 503)) \<or>
         (\<exists>args. spec_args env td p rf efs args \<and>
            ((evs = [TempDir td, Generate args, Rollback] \<and>
                (\<exists>e w1. handler_body env pid req w = (Inl e, w1) \<and>
                   resp = error_response ''AI_SERVICE_ERROR'' e 503 \<and>
                   (generate_image env args = Inl e \<or>
                    (\<exists>img. generate_image env args = Inr (Some img) \<and>
                           after_image_raises env pid img e)))) \<or>
             (evs = [TempDir td, Generate args] \<and>
                generate_image env args = Inr None \<and>
                (\<exists>w1. handler_body env pid req w = (Inr resp, w1)) \<and>
                resp = error_response ''AI_SERVICE_ERROR'' ''Failed to generate image'' 503) \<or>
             (evs = [TempDir td, Generate args, Commit] \<and>
                (\<exists>w1. handler_body env pid req w = (Inr resp, w1)) \<and>
                (\<exists>img rel url.
                   generate_image env args = Inr (Some img) \<and>
                   save_material_image env img pid = Inr rel \<and>
                   get_file_url env pid ''materials'' (path_name rel) = Inr url \<and>
                   commit env = None \<and>
                   resp = success_response url rel)))))))"
proof -
  from gmi_cases[OF assms] obtain r w1 where
    h: "handler_body env pid req w = (r, w1)"
    and out: "(\<exists>e. r = Inl e \<and> resp = error_response ''AI_SERVICE_ERROR'' e 503 \<and>
                 w' = db_rollback w1) \<or> (r = Inr resp \<and> w' = w1)" by blast
  from handler_body_run[OF h] show ?thesis
  proof
    assume early: "w1 = w \<and>
           ((\<exists>e. r = Inl e) \<or>
            (find_project env pid = Inr None \<and> r = Inr (not_found ''Project'')) \<or>
            (\<exists>proj rf efs. find_project env pid = Inr (Some proj) \<and>
               parse_request req = Inr ([], rf, efs) \<and>
               r = Inr (bad_request ''prompt is required'')))"
    then have w1: "w1 = w" by simp
    show ?thesis
    proof (cases r)
      case (Inl e)
      with out have "resp = error_response ''AI_SERVICE_ERROR'' e 503" "w' = db_rollback w"
        using w1 by auto
      moreover have "log (db_rollback w) = log w @ [Rollback]" by (simp add: db_rollback_simps)
      ultimately show ?thesis using h Inl w1 by auto
    next
      case (Inr x)
      with out have "x = resp" "w' = w" using w1 by auto
      with early Inr h w1 show ?thesis by auto
    qed
  next
    assume "\<exists>proj p rf efs td w2.
            find_project env pid = Inr (Some proj) \<and>
            parse_request req = Inr (p, rf, efs) \<and> p \<noteq> [] \<and>
            try_body env pid p rf efs td
              (w\<lparr>dirs := insert td (dirs w), log := log w @ [TempDir td]\<rparr>) = (r, w2) \<and>
            log w1 = log w2 \<and> \<not> path_exists w1 td \<and>
            w1 = (if path_exists w2 td then rmtree td w2 else w2)"
    then obtain proj p rf efs td w2 where
      fp: "find_project env pid = Inr (Some proj)"
      and pr: "parse_request req = Inr (p, rf, efs)" "p \<noteq> []"
      and tb: "try_body env pid p rf efs td
              (w\<lparr>dirs := insert td (dirs w), log := log w @ [TempDir td]\<rparr>) = (r, w2)"
      and l: "log w1 = log w2" and gone: "\<not> path_exists w1 td" by blast
    from out have gone': "\<not> path_exists w' td" using gone by (auto simp: db_rollback_simps)
    from try_body_run[OF tb] have
      tr: "(\<exists>e. r = Inl e \<and> log w2 = log w @ [TempDir td]) \<or>
     (\<exists>args. spec_args env td p rf efs args \<and>
        ((log w2 = log w @ [TempDir td, Generate args] \<and>
            ((\<exists>e. r = Inl e \<and>
                 (generate_image env args = Inl e \<or>
                  (\<exists>img. generate_image env args = Inr (Some img) \<and> after_image_raises env pid img e))) \<or>
             (generate_image env args = Inr None \<and>
              r = Inr (error_response ''AI_SERVICE_ERROR'' ''Failed to generate image'' 503)))) \<or>
         (\<exists>img rel url.
            log w2 = log w @ [TempDir td, Generate args, Commit] \<and>
            generate_image env args = Inr (Some img) \<and>
            save_material_image env img pid = Inr rel \<and>
            get_file_url env pid ''materials'' (path_name rel) = Inr url \<and>
            commit env = None \<and>
            r = Inr (success_response url rel))))"
      by simp
    show ?thesis
    proof (cases r)
      case (Inl e)
      with out have resp: "resp = error_response ''AI_SERVICE_ERROR'' e 503"
        and w': "log w' = log w2 @ [Rollback]" using l by (auto simp: db_rollback_simps)
      from tr Inl have
        "log w2 = log w @ [TempDir td] \<or>
         (\<exists>args. spec_args env td p rf efs args \<and> log w2 = log w @ [TempDir td, Generate args] \<and>
            (generate_image env args = Inl e \<or>
             (\<exists>img. generate_image env args = Inr (Some img) \<and> after_image_raises env pid img e)))"
        by auto
      then show ?thesis
      proof
        assume "log w2 = log w @ [TempDir td]"
        with w' have "log w' = log w @ [TempDir td, Rollback]" by simp
        with resp fp pr gone' h Inl show ?thesis by blast
      next
        assume "\<exists>args. spec_args env td p rf efs args \<and> log w2 = log w @ [TempDir td, Generate args] \<and>
            (generate_image env args = Inl e \<or>
             (\<exists>img. generate_image env args = Inr (Some img) \<and> after_image_raises env pid img e))"
        then obtain args where a: "spec_args env td p rf efs args"
          "log w2 = log w @ [TempDir td, Generate args]"
          "generate_image env args = Inl e \<or>
             (\<exists>img. generate_image env args = Inr (Some img) \<and> after_image_raises env pid img e)"
          by blast
        with w' have "log w' = log w @ [TempDir td, Generate args, Rollback]" by simp
        with a resp fp pr gone' h Inl show ?thesis by blast
      qed
    next
      case (Inr x)
      with out have x: "x = resp" and w': "log w' = log w2" using l by auto
      from tr Inr x obtain args where a: "spec_args env td p rf efs args" and
        b: "(log w2 = log w @ [TempDir td, Generate args] \<and> generate_image env args = Inr None \<and>
              resp = error_response ''AI_SERVICE_ERROR'' ''Failed to generate image'' 503) \<or>
         (\<exists>img rel url.
            log w2 = log w @ [TempDir td, Generate args, Commit] \<and>
            generate_image env args = Inr (Some img) \<and>
            save_material_image env img pid = Inr rel \<and>
            get_file_url env pid ''materials'' (path_name rel) = Inr url \<and>
            commit env = None \<and>
            resp = success_response url rel)" by auto
      from h Inr x have hb: "\<exists>w1. handler_body env pid req w = (Inr resp, w1)" by auto
      from b show ?thesis
      proof
        assume "log w2 = log w @ [TempDir td, Generate args] \<and> generate_image env args = Inr None \<and>
              resp = error_response ''AI_SERVICE_ERROR'' ''Failed to generate image'' 503"
        with w' a fp pr gone' hb show ?thesis by auto
      next
        assume "\<exists>img rel url.
            log w2 = log w @ [TempDir td, Generate args, Commit] \<and>
            generate_image env args = Inr (Some img) \<and>
            save_material_image env img pid = Inr rel \<and>
            get_file_url env pid ''materials'' (path_name rel) = Inr url \<and>
            commit env = None \<and>
            resp = success_response url rel"
        then obtain img rel url where c: "log w2 = log w @ [TempDir td, Generate args, Commit]"
            "generate_image env args = Inr (Some img)"
            "save_material_image env img pid = Inr rel"
            "get_file_url env pid ''materials'' (path_name rel) = Inr url"
            "commit env = None"
            "resp = success_response url rel" by blast
        with w' have "log w' = log w @ [TempDir td, Generate args, Commit]" by simp
        with c a fp pr gone' hb show ?thesis by blast
      qed
    qed
  qed
qed

lemma parse_request_Inr:
  assumes "parse_request req = Inr (p, rf, efs)"
  shows "\<exists>s. supplied_prompt req = Some s \<and> p = py_strip s \<and>
           rf = uploaded_primary req \<and> efs = uploaded_extras req"
proof (cases req)
  case (FormRequest form fs)
  with assms show ?thesis by auto
next
  case (JsonRequest body)
  show ?thesis
  proof (cases body)
    case (Inl e)
    with assms JsonRequest show ?thesis by simp
  next
    case (Inr j)
    show ?thesis
    proof (cases j)
      case (JObj kvs)
      with assms JsonRequest Inr show ?thesis
        by (cases "map_of kvs ''prompt''"; cases "the (map_of kvs ''prompt'')")
           (auto simp: py_strip_def split: if_splits)
    qed (use assms JsonRequest Inr in \<open>auto simp: py_strip_def split: if_splits\<close>)
  qed
qed

lemma parse_request_blank:
  assumes "supplied_prompt req = Some s" "py_strip s = []"
  shows "parse_request req = Inr ([], uploaded_primary req, uploaded_extras req)"
proof (cases req)
  case (FormRequest form fs)
  with assms show ?thesis by auto
next
  case (JsonRequest body)
  show ?thesis
  proof (cases body)
    case (Inl e)
    with assms JsonRequest show ?thesis by simp
  next
    case (Inr j)
    show ?thesis
    proof (cases j)
      case (JObj kvs)
      with assms JsonRequest Inr show ?thesis
        by (cases "map_of kvs ''prompt''"; cases "the (map_of kvs ''prompt'')")
           (auto simp: py_strip_def split: if_splits)
    qed (use assms JsonRequest Inr in \<open>auto simp: py_strip_def split: if_splits\<close>)
  qed
qed

lemma handler_unknown_project:
  "find_project env pid = Inr None \<Longrightarrow>
     generate_material_image env pid req w = (not_found ''Project'', w)"
  by (simp add: generate_material_image_def handler_body_def bind_pure_Inr pure_def)

lemma handler_blank_prompt:
  assumes "find_project env pid = Inr (Some proj)"
    and "parse_request req = Inr ([], rf, efs)"
  shows "generate_material_image env pid req w = (bad_request ''prompt is required'', w)"
  using assms
  by (simp add: generate_material_image_def handler_body_def bind_pure_Inr pure_def)

lemma after_image_raises_unique:
  "after_image_raises env pid img e \<Longrightarrow> after_image_raises env pid img e' \<Longrightarrow> e = e'"
  by (auto simp: after_image_raises_def)

lemma after_image_raises_not_success:
  "after_image_raises env pid img e \<Longrightarrow> save_material_image env img pid = Inr rel \<Longrightarrow>
   get_file_url env pid ''materials'' (path_name rel) = Inr url \<Longrightarrow> commit env = None \<Longrightarrow> False"
  by (auto simp: after_image_raises_def)

lemma file_save_stores:
  "p \<notin> dirs w \<Longrightarrow> save_error env p = None \<Longrightarrow>
     file_save env f p w = (Inr (), w\<lparr>files := (files w)(p \<mapsto> content f)\<rparr>)"
  by (simp add: file_save_def)

lemma stored_path_cases:
  "(secure_filename (nfkd env) (filename f) = [] \<and> stored_path env td f = td) \<or>
   (secure_filename (nfkd env) (filename f) \<noteq> [] \<and>
    stored_path env td f = td @ ''/'' @ secure_filename (nfkd env) (filename f))"
proof (cases "secure_filename (nfkd env) (filename f) = []")
  case True
  then show ?thesis by (simp add: stored_path_def path_join_empty)
next
  case False
  then show ?thesis
    using path_join_plain[OF secure_filename_no_sep False secure_filename_not_dots(1)]
    by (simp add: stored_path_def)
qed

lemma written_Nil: "written env td [] p = None"
  by (simp add: written_def)

lemma written_append:
  "written env td (xs @ ys) p =
     (case written env td ys p of Some c \<Rightarrow> Some c | None \<Rightarrow> written env td xs p)"
  by (simp add: written_def Let_def)

lemma written_single:
  "written env td [f] p =
     (if filename f \<noteq> [] \<and> stored_path env td f = p then Some (content f) else None)"
  by (simp add: written_def)

lemma written_Cons:
  "written env td (f # fs) p =
     (case written env td fs p of
        Some c \<Rightarrow> Some c
      | None \<Rightarrow> if filename f \<noteq> [] \<and> stored_path env td f = p then Some (content f) else None)"
  using written_append[of env td "[f]" fs p]
  by (simp add: written_single split: option.splits)

lemma save_extras_files:
  "save_extras env td efs acc w = (Inr ps, w') \<Longrightarrow>
     files w' p = (case written env td efs p of None \<Rightarrow> files w p | Some c \<Rightarrow> Some c)"
proof (induction efs arbitrary: acc w)
  case Nil
  then show ?case by (simp add: pure_def written_Nil)
next
  case (Cons extra rest)
  show ?case
  proof (cases "filename extra = []")
    case True
    with Cons.prems have "save_extras env td rest acc w = (Inr ps, w')" by simp
    from Cons.IH[OF this] True show ?thesis by (simp add: written_Cons split: option.splits)
  next
    case False
    with Cons.prems have
      "bind (file_save env extra (stored_path env td extra))
         (\<lambda>_. save_extras env td rest (acc @ [stored_path env td extra])) w = (Inr ps, w')"
      by (simp add: Let_def stored_path_def)
    then show ?thesis
    proof (cases rule: bindE)
      case (raised e)
      then show ?thesis by simp
    next
      case (continued a w1)
      from file_save_Inr[of env extra "stored_path env td extra" w a w1] continued(1)
      have w1: "w1 = w\<lparr>files := (files w)(stored_path env td extra \<mapsto> content extra)\<rparr>"
        by (cases a) simp
      from Cons.IH[OF continued(2)] w1 False show ?thesis
        by (simp add: written_Cons split: option.splits)
    qed
  qed
qed


lemma written_eq_None_iff:
  "written env td fs p = None \<longleftrightarrow> p \<notin> set (spec_additional_paths env td fs)"
  by (auto simp: written_def Let_def spec_additional_paths_def filter_empty_conv)

lemma save_extras_skips:
  "\<forall>f\<in>set efs. filename f = [] \<Longrightarrow> save_extras env td efs acc w = (Inr acc, w)"
  by (induction efs) (simp_all add: pure_def)

lemma split_sep_snoc:
  "CHR ''/'' \<notin> set n \<Longrightarrow> split_sep w (xs @ CHR ''/'' # n) = split_sep w xs @ [n]"
  by (induction xs arbitrary: w) (simp_all add: split_sep_no_sep)

lemma path_name_last_segment:
  assumes "is_file_name n"
  shows "path_name (xs @ ''/'' @ n) = n"
proof -
  from assms have n: "n \<noteq> []" "CHR ''/'' \<notin> set n" "n \<noteq> ''.''"
    by (simp_all add: is_file_name_def)
  have "path_parts (xs @ ''/'' @ n) = path_parts xs @ [n]"
    using n by (simp add: path_parts_def split_sep_snoc)
  moreover have "path_name s = (if path_parts s = [] then [] else last (path_parts s))" for s
    by (simp add: path_name_def split: list.splits)
  ultimately show ?thesis by simp
qed

lemma strictly_inside_under: "strictly_inside td q \<Longrightarrow> under td q"
  by (simp add: strictly_inside_def under_def)

lemma stored_strictly_inside:
  "secure_filename (nfkd env) (filename f) \<noteq> [] \<Longrightarrow> strictly_inside td (stored_path env td f)"
  using stored_path_cases[of env f td] secure_filename_no_sep[of "nfkd env" "filename f"]
    secure_filename_not_dots[of "nfkd env" "filename f"]
  by (auto simp: strictly_inside_def)

lemma stored_not_dir:
  "td \<in> dirs w \<Longrightarrow> stored_path env td f \<notin> dirs w \<Longrightarrow>
     secure_filename (nfkd env) (filename f) \<noteq> []"
  using stored_path_cases[of env f td] by auto

lemma file_save_changes:
  assumes "file_save env f p w = (r, w')" and "files w' q \<noteq> files w q"
  shows "q = p \<and> p \<notin> dirs w"
  using assms by (auto simp: file_save_def split: if_splits option.splits)

lemma save_ref_named:
  assumes "filename f \<noteq> []" and "stored_path env td f \<notin> dirs w"
    and "save_error env (stored_path env td f) = None"
  shows "save_ref env td (Some f) w
           = (Inr (Some (stored_path env td f)),
              w\<lparr>files := (files w)(stored_path env td f \<mapsto> content f)\<rparr>)"
  using assms
  by (simp add: save_ref_def Let_def stored_path_def[symmetric] bind_def pure_def
      file_save_stores)

lemma save_extras_named:
  assumes "filename f \<noteq> []" and "stored_path env td f \<notin> dirs w"
    and "save_error env (stored_path env td f) = None"
  shows "save_extras env td (f # rest) acc w
           = save_extras env td rest (acc @ [stored_path env td f])
               (w\<lparr>files := (files w)(stored_path env td f \<mapsto> content f)\<rparr>)"
  using assms
  by (simp add: Let_def stored_path_def[symmetric] bind_def file_save_stores)

lemma save_ref_writes:
  assumes "save_ref env td rf w = (r, w')" and "td \<in> dirs w" and "files w' q \<noteq> files w q"
  shows "strictly_inside td q"
proof (cases rf)
  case None
  with assms show ?thesis by (simp add: save_ref_def pure_def)
next
  case (Some f)
  show ?thesis
  proof (cases "filename f = []")
    case True
    with assms Some show ?thesis by (simp add: save_ref_def pure_def)
  next
    case False
    with assms(1) Some have
      "bind (file_save env f (stored_path env td f))
         (\<lambda>_. pure (Inr (Some (stored_path env td f)))) w = (r, w')"
      by (simp add: save_ref_def Let_def stored_path_def)
    then have "\<exists>r0. file_save env f (stored_path env td f) w = (r0, w')"
      by (cases rule: bindE) (auto simp: pure_def)
    then obtain r0 where fs: "file_save env f (stored_path env td f) w = (r0, w')" by blast
    from file_save_changes[OF fs assms(3)] have "q = stored_path env td f"
      "stored_path env td f \<notin> dirs w" by simp_all
    with stored_not_dir[OF assms(2)] stored_strictly_inside show ?thesis by blast
  qed
qed

lemma save_extras_writes:
  assumes "save_extras env td efs acc w = (r, w')" and "td \<in> dirs w"
    and "files w' q \<noteq> files w q"
  shows "strictly_inside td q"
  using assms
proof (induction efs arbitrary: acc w)
  case Nil
  then show ?case by (simp add: pure_def)
next
  case (Cons extra rest)
  show ?case
  proof (cases "filename extra = []")
    case True
    with Cons.prems have "save_extras env td rest acc w = (r, w')" by simp
    from Cons.IH[OF this Cons.prems(2,3)] show ?thesis .
  next
    case False
    with Cons.prems(1) have
      "bind (file_save env extra (stored_path env td extra))
         (\<lambda>_. save_extras env td rest (acc @ [stored_path env td extra])) w = (r, w')"
      by (simp add: Let_def stored_path_def)
    then show ?thesis
    proof (cases rule: bindE)
      case (raised e)
      from file_save_changes[OF raised(1) Cons.prems(3)]
      have "q = stored_path env td extra" "stored_path env td extra \<notin> dirs w" by simp_all
      with stored_not_dir[OF Cons.prems(2)] stored_strictly_inside show ?thesis by blast
    next
      case (continued a w1)
      have d1: "td \<in> dirs w1" using file_save_frame[OF continued(1)] Cons.prems(2) by simp
      show ?thesis
      proof (cases "files w' q = files w1 q")
        case True
        with Cons.prems(3) have "files w1 q \<noteq> files w q" by simp
        from file_save_changes[OF continued(1) this]
        have "q = stored_path env td extra" "stored_path env td extra \<notin> dirs w" by simp_all
        with stored_not_dir[OF Cons.prems(2)] stored_strictly_inside show ?thesis by blast
      next
        case False
        from Cons.IH[OF continued(2) d1 False] show ?thesis .
      qed
    qed
  qed
qed

lemma save_extras_named_inside:
  assumes "save_extras env td efs acc w = (Inr ps, w')" and "td \<in> dirs w"
    and "f \<in> set efs" and "filename f \<noteq> []"
  shows "strictly_inside td (stored_path env td f)"
  using assms
proof (induction efs arbitrary: acc w)
  case Nil
  then show ?case by simp
next
  case (Cons extra rest)
  show ?case
  proof (cases "filename extra = []")
    case True
    with Cons.prems have "save_extras env td rest acc w = (Inr ps, w')" "f \<in> set rest"
      by auto
    from Cons.IH[OF this(1) Cons.prems(2) this(2) Cons.prems(4)] show ?thesis .
  next
    case False
    with Cons.prems(1) have
      "bind (file_save env extra (stored_path env td extra))
         (\<lambda>_. save_extras env td rest (acc @ [stored_path env td extra])) w = (Inr ps, w')"
      by (simp add: Let_def stored_path_def)
    then show ?thesis
    proof (cases rule: bindE)
      case (raised e)
      then show ?thesis by simp
    next
      case (continued a w1)
      have d1: "td \<in> dirs w1" using file_save_frame[OF continued(1)] Cons.prems(2) by simp
      from file_save_Inr[of env extra "stored_path env td extra" w a w1] continued(1)
      have nd: "stored_path env td extra \<notin> dirs w" by (cases a) simp
      show ?thesis
      proof (cases "f = extra")
        case True
        with stored_not_dir[OF Cons.prems(2) nd] stored_strictly_inside show ?thesis by blast
      next
        case False
        with Cons.prems(3) have "f \<in> set rest" by simp
        from Cons.IH[OF continued(2) d1 this Cons.prems(4)] show ?thesis .
      qed
    qed
  qed
qed

lemma save_ref_named_inside:
  assumes "save_ref env td rf w = (Inr rp, w')" and "td \<in> dirs w" and "rp = Some p"
  shows "strictly_inside td p"
proof -
  from save_ref_Inr[OF assms(1)] assms(3) obtain f where
    f: "rf = Some f" "filename f \<noteq> []" "p = stored_path env td f"
    by (auto simp: spec_primary_path_def split: option.splits if_splits)
  with assms(1) have
    "bind (file_save env f (stored_path env td f))
       (\<lambda>_. pure (Inr (Some (stored_path env td f)))) w = (Inr rp, w')"
    by (simp add: save_ref_def Let_def stored_path_def)
  then have "\<exists>a w1. file_save env f (stored_path env td f) w = (Inr a, w1)"
    by (cases rule: bindE) auto
  then obtain a w1 where "file_save env f (stored_path env td f) w = (Inr a, w1)" by blast
  from file_save_Inr[of env f "stored_path env td f" w a w1] this
  have "stored_path env td f \<notin> dirs w" by (cases a) simp
  with stored_not_dir[OF assms(2)] stored_strictly_inside f show ?thesis by blast
qed

lemma synthesize_files:
  "synthesize env pid p rp add w = (r, w') \<Longrightarrow> files w' = files w \<and> dirs w' = dirs w"
  using synthesize_run[of env pid p rp add w r w'] by auto

lemma try_body_writes:
  assumes "try_body env pid p rf efs td w = (r, w')" and "td \<in> dirs w"
  shows "(\<forall>q. files w' q \<noteq> files w q \<longrightarrow> strictly_inside td q) \<and>
         (log w' \<noteq> log w \<longrightarrow>
            (\<forall>x. spec_primary_path env td rf = Some x \<longrightarrow> strictly_inside td x) \<and>
            (\<forall>x\<in>set (spec_additional_paths env td efs). strictly_inside td x))"
  using assms(1) unfolding try_body_def
proof (cases rule: bindE)
  case (raised e)
  with save_ref_writes[OF raised(1) assms(2)] save_ref_frame[OF raised(1)]
  show ?thesis by auto
next
  case (continued rp w1)
  note ref = this
  have d1: "td \<in> dirs w1" using save_ref_frame[OF ref(1)] assms(2) by simp
  have l1: "log w1 = log w" using save_ref_frame[OF ref(1)] by simp
  have c1: "\<And>q. files w1 q \<noteq> files w q \<Longrightarrow> strictly_inside td q"
    using save_ref_writes[OF ref(1) assms(2)] by blast
  have rp: "rp = spec_primary_path env td rf" using save_ref_Inr[OF ref(1)] .
  have pin: "\<And>x. spec_primary_path env td rf = Some x \<Longrightarrow> strictly_inside td x"
    using save_ref_named_inside[OF ref(1) assms(2)] rp by simp
  from ref(2) show ?thesis
  proof (cases rule: bindE)
    case (raised e)
    have c2: "\<And>q. files w' q \<noteq> files w1 q \<Longrightarrow> strictly_inside td q"
      using save_extras_writes[OF raised(1) d1] by blast
    have "log w' = log w" using save_extras_frame[OF raised(1)] l1 by simp
    moreover have "\<forall>q. files w' q \<noteq> files w q \<longrightarrow> strictly_inside td q"
      using c1 c2 by metis
    ultimately show ?thesis by simp
  next
    case (continued ps w2)
    note ex = this
    have c2: "\<And>q. files w2 q \<noteq> files w1 q \<Longrightarrow> strictly_inside td q"
      using save_extras_writes[OF ex(1) d1] by blast
    have f3: "files w' = files w2" using synthesize_files[OF ex(2)] by simp
    have ps: "ps = spec_additional_paths env td efs" using save_extras_Inr[OF ex(1)] by simp
    have ain: "\<forall>x\<in>set (spec_additional_paths env td efs). strictly_inside td x"
    proof
      fix x assume "x \<in> set (spec_additional_paths env td efs)"
      then obtain f where "f \<in> set efs" "filename f \<noteq> []" "x = stored_path env td f"
        by (auto simp: spec_additional_paths_def)
      with save_extras_named_inside[OF ex(1) d1] show "strictly_inside td x" by blast
    qed
    have "\<forall>q. files w' q \<noteq> files w q \<longrightarrow> strictly_inside td q"
      using c1 c2 f3 by metis
    with pin ain show ?thesis by blast
  qed
qed

lemma rmtree_outside: "\<not> under td q \<Longrightarrow> files (rmtree td w) q = files w q"
  by (simp add: rmtree_def)

lemma rmtree_inside: "under td q \<Longrightarrow> files (rmtree td w) q = None"
  by (simp add: rmtree_def)

lemma handler_body_writes:
  assumes "handler_body env pid req w = (r, w')"
  shows "w' = w \<or>
    (\<exists>p rf efs td w2.
        parse_request req = Inr (p, rf, efs) \<and>
        try_body env pid p rf efs td
          (w\<lparr>dirs := insert td (dirs w), log := log w @ [TempDir td]\<rparr>) = (r, w2) \<and>
        log w' = log w2 \<and>
        (\<forall>q. \<not> under td q \<longrightarrow> files w' q = files w q) \<and>
        (log w2 \<noteq> log w @ [TempDir td] \<longrightarrow>
            (\<forall>x. spec_primary_path env td rf = Some x \<longrightarrow> strictly_inside td x) \<and>
            (\<forall>x\<in>set (spec_additional_paths env td efs). strictly_inside td x)))"
  using handler_body_run[OF assms]
proof
  assume "w' = w \<and>
           ((\<exists>e. r = Inl e) \<or>
            (find_project env pid = Inr None \<and> r = Inr (not_found ''Project'')) \<or>
            (\<exists>proj rf efs. find_project env pid = Inr (Some proj) \<and>
               parse_request req = Inr ([], rf, efs) \<and>
               r = Inr (bad_request ''prompt is required'')))"
  then show ?thesis by simp
next
  assume "\<exists>proj p rf efs td w2.
            find_project env pid = Inr (Some proj) \<and>
            parse_request req = Inr (p, rf, efs) \<and> p \<noteq> [] \<and>
            try_body env pid p rf efs td
              (w\<lparr>dirs := insert td (dirs w), log := log w @ [TempDir td]\<rparr>) = (r, w2) \<and>
            log w' = log w2 \<and> \<not> path_exists w' td \<and>
            w' = (if path_exists w2 td then rmtree td w2 else w2)"
  then obtain p rf efs td w2 where
    pr: "parse_request req = Inr (p, rf, efs)"
    and tb: "try_body env pid p rf efs td
              (w\<lparr>dirs := insert td (dirs w), log := log w @ [TempDir td]\<rparr>) = (r, w2)"
    and l: "log w' = log w2"
    and w': "w' = (if path_exists w2 td then rmtree td w2 else w2)" by blast
  let ?w1 = "w\<lparr>dirs := insert td (dirs w), log := log w @ [TempDir td]\<rparr>"
  have "td \<in> dirs ?w1" by simp
  from try_body_writes[OF tb this] have
    ch: "\<forall>q. files w2 q \<noteq> files w q \<longrightarrow> strictly_inside td q"
    and ins: "log w2 \<noteq> log w @ [TempDir td] \<longrightarrow>
            (\<forall>x. spec_primary_path env td rf = Some x \<longrightarrow> strictly_inside td x) \<and>
            (\<forall>x\<in>set (spec_additional_paths env td efs). strictly_inside td x)"
    by simp_all
  have "\<forall>q. \<not> under td q \<longrightarrow> files w' q = files w q"
  proof (intro allI impI)
    fix q assume nu: "\<not> under td q"
    then have "files w' q = files w2 q" using w' by (simp add: rmtree_outside)
    moreover from nu ch have "files w2 q = files w q" using strictly_inside_under by blast
    ultimately show "files w' q = files w q" by simp
  qed
  with pr tb l ins show ?thesis by blast
qed

lemma try_body_generate:
  assumes "try_body env pid p rf efs td w = (r, w')"
  shows "\<exists>evs. log w' = log w @ evs \<and> (\<forall>t. TempDir t \<notin> set evs) \<and>
           (\<forall>args. Generate args \<in> set evs \<longrightarrow> spec_args env td p rf efs args)"
  using try_body_run[OF assms] by (elim conjE disjE exE) auto

lemma gmi_writes:
  assumes "generate_material_image env pid req w = (resp, w')"
    and "log w' = log w @ evs"
  shows "(\<forall>q. files w' q \<noteq> files w q \<longrightarrow> (\<exists>td. TempDir td \<in> set evs \<and> under td q)) \<and>
         (\<forall>args. Generate args \<in> set evs \<longrightarrow>
            (\<exists>td. TempDir td \<in> set evs \<and>
               (\<forall>x. ref_image_path args = Some x \<longrightarrow> strictly_inside td x) \<and>
               (\<forall>xs. additional_ref_images args = Some xs \<longrightarrow>
                  (\<forall>x\<in>set xs. strictly_inside td x))))"
proof -
  from gmi_cases[OF assms(1)] obtain r w1 where
    h: "handler_body env pid req w = (r, w1)"
    and w': "w' = db_rollback w1 \<or> w' = w1" by blast
  from w' have fw: "files w' = files w1" by (auto simp: db_rollback_simps)
  from w' have lw: "log w' = log w1 \<or> log w' = log w1 @ [Rollback]"
    by (auto simp: db_rollback_simps)
  from handler_body_writes[OF h] show ?thesis
  proof
    assume "w1 = w"
    with fw lw assms(2) show ?thesis by auto
  next
    assume "\<exists>p rf efs td w2.
        parse_request req = Inr (p, rf, efs) \<and>
        try_body env pid p rf efs td
          (w\<lparr>dirs := insert td (dirs w), log := log w @ [TempDir td]\<rparr>) = (r, w2) \<and>
        log w1 = log w2 \<and>
        (\<forall>q. \<not> under td q \<longrightarrow> files w1 q = files w q) \<and>
        (log w2 \<noteq> log w @ [TempDir td] \<longrightarrow>
            (\<forall>x. spec_primary_path env td rf = Some x \<longrightarrow> strictly_inside td x) \<and>
            (\<forall>x\<in>set (spec_additional_paths env td efs). strictly_inside td x))"
    then obtain p rf efs td w2 where
      tb: "try_body env pid p rf efs td
          (w\<lparr>dirs := insert td (dirs w), log := log w @ [TempDir td]\<rparr>) = (r, w2)"
      and l: "log w1 = log w2"
      and out: "\<forall>q. \<not> under td q \<longrightarrow> files w1 q = files w q"
      and ins: "log w2 \<noteq> log w @ [TempDir td] \<longrightarrow>
            (\<forall>x. spec_primary_path env td rf = Some x \<longrightarrow> strictly_inside td x) \<and>
            (\<forall>x\<in>set (spec_additional_paths env td efs). strictly_inside td x)"
      by blast
    from try_body_generate[OF tb] obtain evs2 where
      l2: "log w2 = log w @ [TempDir td] @ evs2"
      and g2: "\<forall>args. Generate args \<in> set evs2 \<longrightarrow> spec_args env td p rf efs args"
      by auto
    from lw l l2 assms(2) have evs: "evs = [TempDir td] @ evs2 \<or> evs = [TempDir td] @ evs2 @ [Rollback]"
      by auto
    then have td: "TempDir td \<in> set evs" by auto
    have part1: "\<forall>q. files w' q \<noteq> files w q \<longrightarrow> (\<exists>td. TempDir td \<in> set evs \<and> under td q)"
      using out fw td by metis
    have part2: "\<forall>args. Generate args \<in> set evs \<longrightarrow>
            (\<exists>td. TempDir td \<in> set evs \<and>
               (\<forall>x. ref_image_path args = Some x \<longrightarrow> strictly_inside td x) \<and>
               (\<forall>xs. additional_ref_images args = Some xs \<longrightarrow>
                  (\<forall>x\<in>set xs. strictly_inside td x)))"
    proof (intro allI impI)
      fix args assume "Generate args \<in> set evs"
      with evs have in2: "Generate args \<in> set evs2" by auto
      then have "evs2 \<noteq> []" by auto
      with l2 have "log w2 \<noteq> log w @ [TempDir td]" by simp
      with ins have pin: "\<forall>x. spec_primary_path env td rf = Some x \<longrightarrow> strictly_inside td x"
        and ain: "\<forall>x\<in>set (spec_additional_paths env td efs). strictly_inside td x" by simp_all
      from g2 in2 have sa: "spec_args env td p rf efs args" by blast
      from sa pin have a: "\<forall>x. ref_image_path args = Some x \<longrightarrow> strictly_inside td x"
        by (simp add: spec_args_def)
      from sa ain have b: "\<forall>xs. additional_ref_images args = Some xs \<longrightarrow>
                  (\<forall>x\<in>set xs. strictly_inside td x)"
        by (auto simp: spec_args_def split: if_splits)
      from td a b show "\<exists>td. TempDir td \<in> set evs \<and>
               (\<forall>x. ref_image_path args = Some x \<longrightarrow> strictly_inside td x) \<and>
               (\<forall>xs. additional_ref_images args = Some xs \<longrightarrow>
                  (\<forall>x\<in>set xs. strictly_inside td x))" by blast
    qed
    from part1 part2 show ?thesis by blast
  qed
qed








text \<open>
  A JSON body that is a number with a fraction, such as \<open>0.5\<close>, is truthy and has no
  \<open>get\<close>: line 35 raises, and the handler answers 503 after a rollback.
\<close>

lemma fractional_body_raises:
  "fst (generate_material_image demo_env ''p1'' (JsonRequest (Inr (JFloat 1 (- 1)))) world0)
     = error_response ''AI_SERVICE_ERROR''
         (quoted ''float'' @ '' object has no attribute '' @ quoted ''get'') 503 \<and>
   log (snd (generate_material_image demo_env ''p1'' (JsonRequest (Inr (JFloat 1 (- 1)))) world0))
     = [Rollback] \<and>
   supplied_prompt (JsonRequest (Inr (JFloat 1 (- 1)))) = None"
  by code_simp

section \<open>The claims\<close>

text \<open>
  Claim C1. Whenever a run of the handler creates the temporary workspace directory
  (the log of the run records \<open>TempDir td\<close>), that directory does not exist in the state
  the handler leaves, whatever the response is: the success response, the 503 for a
  synthesis that returned no image, or the 503 of the exception handler.
\<close>

theorem workspace_removed_on_every_exit:
  assumes "generate_material_image env pid req w = (resp, w')"
    and "TempDir td \<notin> set (log w)"
    and "TempDir td \<in> set (log w')"
  shows "\<not> path_exists w' td"
proof -
  from gmi_cases[OF assms(1)] obtain r w1 where
    h: "handler_body env pid req w = (r, w1)"
    and w': "w' = db_rollback w1 \<or> w' = w1" by blast
  from w' have pe: "path_exists w' td = path_exists w1 td"
    by (auto simp: db_rollback_simps)
  from w' assms(3) have in1: "TempDir td \<in> set (log w1)"
    by (auto simp: db_rollback_simps)
  from handler_body_run[OF h] show ?thesis
  proof
    assume "w1 = w \<and>
           ((\<exists>e. r = Inl e) \<or>
            (find_project env pid = Inr None \<and> r = Inr (not_found ''Project'')) \<or>
            (\<exists>proj rf efs. find_project env pid = Inr (Some proj) \<and>
               parse_request req = Inr ([], rf, efs) \<and>
               r = Inr (bad_request ''prompt is required'')))"
    with in1 assms(2) show ?thesis by simp
  next
    assume "\<exists>proj p rf efs td w2.
            find_project env pid = Inr (Some proj) \<and>
            parse_request req = Inr (p, rf, efs) \<and> p \<noteq> [] \<and>
            try_body env pid p rf efs td
              (w\<lparr>dirs := insert td (dirs w), log := log w @ [TempDir td]\<rparr>) = (r, w2) \<and>
            log w1 = log w2 \<and> \<not> path_exists w1 td \<and>
            w1 = (if path_exists w2 td then rmtree td w2 else w2)"
    then obtain p rf efs td0 w2 where
      tb: "try_body env pid p rf efs td0
              (w\<lparr>dirs := insert td0 (dirs w), log := log w @ [TempDir td0]\<rparr>) = (r, w2)"
      and l: "log w1 = log w2" and gone: "\<not> path_exists w1 td0" by blast
    from try_body_run[OF tb] have
      "(\<exists>evs. log w2 = log w @ TempDir td0 # evs \<and> (\<forall>t. TempDir t \<notin> set evs))"
      by auto
    with in1 l assms(2) have "td = td0" by auto
    with gone pe show ?thesis by simp
  qed
qed

text \<open>
  The hypotheses of C1 hold on the run of scenario D: the synthesis returns no image,
  the directory \<open>/up/tmpab\<close> was created, and it is gone afterwards.
\<close>

theorem workspace_removed_witness:
  "TempDir ''/up/tmpab''
     \<in> set (log (snd (generate_material_image demo_env_no_image ''p1'' red_cube world0))) \<and>
   \<not> path_exists (snd (generate_material_image demo_env_no_image ''p1'' red_cube world0))
       ''/up/tmpab''"
proof -
  let ?out = "generate_material_image demo_env_no_image ''p1'' red_cube world0"
  have 1: "?out = (fst ?out, snd ?out)" by simp
  have 2: "TempDir ''/up/tmpab'' \<notin> set (log world0)" by (simp add: world0_def)
  have 3: "TempDir ''/up/tmpab'' \<in> set (log (snd ?out))" by code_simp
  from workspace_removed_on_every_exit[OF 1 2 3] 3 show ?thesis by simp
qed

text \<open>
  Claim C3. When the project lookup finds no project, the handler answers with the 404
  response for \<open>Project\<close> and leaves the state as it was: no temporary directory is
  created, nothing is called. This holds for every request, whatever its prompt.
\<close>

theorem unknown_project_is_404:
  assumes "find_project env pid = Inr None"
  shows "generate_material_image env pid req w = (not_found ''Project'', w) \<and>
         status_code (fst (generate_material_image env pid req w)) = 404"
  using handler_unknown_project[OF assms] by simp

text \<open>The unknown project \<open>p2\<close> of the deployment, with a valid prompt (scenario E).\<close>

theorem unknown_project_witness:
  "find_project demo_env ''p2'' = Inr None \<and>
   generate_material_image demo_env ''p2'' red_cube world0 = (not_found ''Project'', world0) \<and>
   status_code (fst (generate_material_image demo_env ''p2'' red_cube world0)) = 404"
proof -
  have 1: "find_project demo_env ''p2'' = Inr None" by (simp add: demo_env_def)
  from unknown_project_is_404[OF 1] 1 show ?thesis by blast
qed

text \<open>
  Claim C2, as stated, fails: a request with a whitespace-only prompt for a project
  that does not exist is answered 404, not 400, because the project is looked up before
  the prompt is examined.
\<close>

theorem blank_prompt_unknown_project_counterexample:
  "supplied_prompt blank_prompt = Some ''  '' \<and> py_strip ''  '' = [] \<and>
   fst (generate_material_image demo_env ''p2'' blank_prompt world0) \<noteq> bad_request ''prompt is required'' \<and>
   status_code (fst (generate_material_image demo_env ''p2'' blank_prompt world0)) = 404"
  by code_simp

text \<open>
  Claim C2, amended. When the project exists and the prompt the request supplies (in
  either shape) is empty or consists of whitespace only, the handler answers with the
  400 response \<open>prompt is required\<close> and leaves the state as it was: no temporary
  directory is created and the synthesis capability is not called.
\<close>

theorem blank_prompt_is_400:
  assumes "find_project env pid = Inr (Some proj)"
    and "supplied_prompt req = Some s"
    and "\<forall>c\<in>set s. py_isspace c"
  shows "generate_material_image env pid req w = (bad_request ''prompt is required'', w) \<and>
         status_code (fst (generate_material_image env pid req w)) = 400"
proof -
  from assms(3) have "py_strip s = []" by (simp add: py_strip_empty_iff)
  from parse_request_blank[OF assms(2) this] handler_blank_prompt[OF assms(1)]
  show ?thesis by simp
qed

text \<open>The hypotheses of the amended C2 hold for the blank JSON prompt on project \<open>p1\<close>.\<close>

theorem blank_prompt_witness:
  "find_project demo_env ''p1'' = Inr (Some \<lparr>updated_at = 0\<rparr>) \<and>
   supplied_prompt blank_prompt = Some ''  '' \<and>
   py_isspace CHR '' '' \<and>
   generate_material_image demo_env ''p1'' blank_prompt world0
     = (bad_request ''prompt is required'', world0) \<and>
   status_code (fst (generate_material_image demo_env ''p1'' blank_prompt world0)) = 400"
proof -
  have 1: "find_project demo_env ''p1'' = Inr (Some \<lparr>updated_at = 0\<rparr>)" by (simp add: demo_env_def)
  have 2: "supplied_prompt blank_prompt = Some ''  ''" by (simp add: blank_prompt_def)
  have 3: "\<forall>c\<in>set ''  ''. py_isspace c" by (simp add: py_isspace_def)
  have 4: "py_isspace CHR '' ''" by (simp add: py_isspace_def)
  from blank_prompt_is_400[OF 1 2 3] 1 2 4 show ?thesis by blast
qed

text \<open>
  Claim C9. On the path that returns the success response the session is committed
  exactly once, as the last thing the run does, and never rolled back. When an
  exception is raised inside the handler, the response is the 503 carrying its message
  and the session is rolled back exactly once, as the last thing the run does, with
  nothing committed.
\<close>

theorem transaction_boundary:
  assumes "generate_material_image env pid req w = (resp, w')"
  shows "(\<forall>url rel. resp = success_response url rel \<longrightarrow>
            (\<exists>evs. log w' = log w @ evs @ [Commit] \<and> Commit \<notin> set evs \<and> Rollback \<notin> set evs)) \<and>
         (\<forall>e w1. handler_body env pid req w = (Inl e, w1) \<longrightarrow>
            resp = error_response ''AI_SERVICE_ERROR'' e 503 \<and>
            (\<exists>evs. log w' = log w @ evs @ [Rollback] \<and> Commit \<notin> set evs \<and> Rollback \<notin> set evs))"
proof (intro conjI allI impI)
  fix url rel
  assume "resp = success_response url rel"
  with gmi_run[OF assms] obtain td args where "log w' = log w @ [TempDir td, Generate args, Commit]"
    by (elim exE conjE disjE) auto
  then have "log w' = log w @ [TempDir td, Generate args] @ [Commit]" by simp
  then show "\<exists>evs. log w' = log w @ evs @ [Commit] \<and> Commit \<notin> set evs \<and> Rollback \<notin> set evs"
    by (intro exI[of _ "[TempDir td, Generate args]"]) simp
next
  fix e w1
  assume h: "handler_body env pid req w = (Inl e, w1)"
  with gmi_run[OF assms] show "resp = error_response ''AI_SERVICE_ERROR'' e 503"
    by (elim exE conjE disjE) auto
next
  fix e w1
  assume h: "handler_body env pid req w = (Inl e, w1)"
  with gmi_run[OF assms] have
    "log w' = log w @ [] @ [Rollback] \<or>
     (\<exists>td. log w' = log w @ [TempDir td] @ [Rollback]) \<or>
     (\<exists>td args. log w' = log w @ [TempDir td, Generate args] @ [Rollback])"
    by (elim exE conjE disjE) auto
  then show "\<exists>evs. log w' = log w @ evs @ [Rollback] \<and> Commit \<notin> set evs \<and> Rollback \<notin> set evs"
  proof (elim disjE exE)
    assume "log w' = log w @ [] @ [Rollback]"
    then show ?thesis by (intro exI[of _ "[]"]) simp
  next
    fix td assume "log w' = log w @ [TempDir td] @ [Rollback]"
    then show ?thesis by (intro exI[of _ "[TempDir td]"]) simp
  next
    fix td args assume "log w' = log w @ [TempDir td, Generate args] @ [Rollback]"
    then show ?thesis by (intro exI[of _ "[TempDir td, Generate args]"]) simp
  qed
qed

text \<open>
  Both hypotheses of C9 are met in the deployment: scenario A succeeds and commits, and
  a synthesis capability that raises leads to the rollback.
\<close>

theorem transaction_boundary_witness:
  "fst (generate_material_image demo_env ''p1'' red_cube world0)
     = success_response ''/files/p1/materials/gen.png'' ''p1/materials/gen.png'' \<and>
   (\<exists>evs. log (snd (generate_material_image demo_env ''p1'' red_cube world0))
            = log world0 @ evs @ [Commit] \<and> Commit \<notin> set evs \<and> Rollback \<notin> set evs) \<and>
   fst (handler_body demo_env_raising ''p1'' red_cube world0) = Inl ''timeout'' \<and>
   fst (generate_material_image demo_env_raising ''p1'' red_cube world0)
     = error_response ''AI_SERVICE_ERROR'' ''timeout'' 503 \<and>
   (\<exists>evs. log (snd (generate_material_image demo_env_raising ''p1'' red_cube world0))
            = log world0 @ evs @ [Rollback] \<and> Commit \<notin> set evs \<and> Rollback \<notin> set evs)"
proof -
  let ?ok = "generate_material_image demo_env ''p1'' red_cube world0"
  let ?bad = "generate_material_image demo_env_raising ''p1'' red_cube world0"
  let ?body = "handler_body demo_env_raising ''p1'' red_cube world0"
  have 1: "?ok = (fst ?ok, snd ?ok)" by simp
  have 2: "fst ?ok = success_response ''/files/p1/materials/gen.png'' ''p1/materials/gen.png''"
    by code_simp
  have 3: "?bad = (fst ?bad, snd ?bad)" by simp
  have 4: "fst ?body = Inl ''timeout''" by code_simp
  then have 5: "?body = (Inl ''timeout'', snd ?body)" by (metis prod.collapse)
  from transaction_boundary[OF 1] 2 transaction_boundary[OF 3] 4 5 show ?thesis by blast
qed

text \<open>
  Claim C4, as stated, fails: when the synthesis capability returns no image the handler
  answers 503 with \<open>Failed to generate image\<close> through a plain \<open>return\<close>, and the session
  is not rolled back.
\<close>

theorem no_image_not_rolled_back_counterexample:
  "fst (generate_material_image demo_env_no_image ''p1'' red_cube world0)
     = error_response ''AI_SERVICE_ERROR'' ''Failed to generate image'' 503 \<and>
   Rollback \<notin> set (log (snd (generate_material_image demo_env_no_image ''p1'' red_cube world0)))"
  by code_simp

text \<open>
  Claim C4, amended. Every exception raised inside the handler is answered with a 503
  carrying the message of the exception, after a rollback; this covers a synthesis
  capability that raises and a storage capability, URL derivation or commit that raises
  after the image was generated. When the synthesis capability returns no image the
  response is the 503 with message \<open>Failed to generate image\<close>, and the session is
  neither rolled back nor committed.
\<close>

theorem service_error_is_503:
  assumes "generate_material_image env pid req w = (resp, w')"
  shows "(\<forall>e w1. handler_body env pid req w = (Inl e, w1) \<longrightarrow>
            resp = error_response ''AI_SERVICE_ERROR'' e 503 \<and>
            status_code resp = 503 \<and> message resp = Some e \<and>
            (\<exists>evs. log w' = log w @ evs @ [Rollback])) \<and>
         (\<forall>evs args. log w' = log w @ evs \<longrightarrow> Generate args \<in> set evs \<longrightarrow>
            (\<forall>e. generate_image env args = Inl e \<longrightarrow>
               resp = error_response ''AI_SERVICE_ERROR'' e 503 \<and> last evs = Rollback) \<and>
            (\<forall>img e. generate_image env args = Inr (Some img) \<longrightarrow>
               after_image_raises env pid img e \<longrightarrow>
               resp = error_response ''AI_SERVICE_ERROR'' e 503 \<and> last evs = Rollback) \<and>
            (generate_image env args = Inr None \<longrightarrow>
               resp = error_response ''AI_SERVICE_ERROR'' ''Failed to generate image'' 503 \<and>
               status_code resp = 503 \<and>
               Rollback \<notin> set evs \<and> Commit \<notin> set evs))"
proof (intro conjI allI impI)
  fix e w1
  assume h: "handler_body env pid req w = (Inl e, w1)"
  with gmi_run[OF assms] show r: "resp = error_response ''AI_SERVICE_ERROR'' e 503"
    by (elim exE conjE disjE) auto
  then show "status_code resp = 503" "message resp = Some e" by simp_all
  from h gmi_run[OF assms] show "\<exists>evs. log w' = log w @ evs @ [Rollback]"
    by (elim exE conjE disjE) auto
next
  fix evs args e
  assume a: "log w' = log w @ evs" "Generate args \<in> set evs" "generate_image env args = Inl e"
  with gmi_run[OF assms] show "resp = error_response ''AI_SERVICE_ERROR'' e 503"
    by (elim exE conjE disjE) auto
  from a gmi_run[OF assms] show "last evs = Rollback"
    by (elim exE conjE disjE) auto
next
  fix evs args img e
  assume a: "log w' = log w @ evs" "Generate args \<in> set evs"
    "generate_image env args = Inr (Some img)" "after_image_raises env pid img e"
  with gmi_run[OF assms] show "resp = error_response ''AI_SERVICE_ERROR'' e 503"
    by (elim exE conjE disjE)
       (auto dest: after_image_raises_unique after_image_raises_not_success)
  from a gmi_run[OF assms] show "last evs = Rollback"
    by (elim exE conjE disjE)
       (auto dest: after_image_raises_unique after_image_raises_not_success)
next
  fix evs args
  assume a: "log w' = log w @ evs" "Generate args \<in> set evs" "generate_image env args = Inr None"
  with gmi_run[OF assms] show r: "resp = error_response ''AI_SERVICE_ERROR'' ''Failed to generate image'' 503"
    by (elim exE conjE disjE) auto
  then show "status_code resp = 503" by simp
  from a gmi_run[OF assms] show "Rollback \<notin> set evs"
    by (elim exE conjE disjE) auto
  from a gmi_run[OF assms] show "Commit \<notin> set evs"
    by (elim exE conjE disjE) auto
qed

text \<open>
  The hypotheses of the amended C4 are met in the deployment, by a synthesis capability
  that raises and by one that returns no image.
\<close>

theorem service_error_witness:
  "fst (handler_body demo_env_raising ''p1'' red_cube world0) = Inl ''timeout'' \<and>
   fst (generate_material_image demo_env_raising ''p1'' red_cube world0)
     = error_response ''AI_SERVICE_ERROR'' ''timeout'' 503 \<and>
   log (snd (generate_material_image demo_env_no_image ''p1'' red_cube world0))
     = log world0 @ [TempDir ''/up/tmpab'', Generate red_cube_args] \<and>
   generate_image demo_env_no_image red_cube_args = Inr None \<and>
   fst (generate_material_image demo_env_no_image ''p1'' red_cube world0)
     = error_response ''AI_SERVICE_ERROR'' ''Failed to generate image'' 503 \<and>
   Rollback \<notin> set [TempDir ''/up/tmpab'', Generate red_cube_args]"
proof -
  let ?bad = "generate_material_image demo_env_raising ''p1'' red_cube world0"
  let ?none = "generate_material_image demo_env_no_image ''p1'' red_cube world0"
  let ?body = "handler_body demo_env_raising ''p1'' red_cube world0"
  have 1: "?bad = (fst ?bad, snd ?bad)" by simp
  have 2: "fst ?body = Inl ''timeout''" by code_simp
  then have 3: "?body = (Inl ''timeout'', snd ?body)" by (metis prod.collapse)
  have 4: "?none = (fst ?none, snd ?none)" by simp
  have 5: "log (snd ?none) = log world0 @ [TempDir ''/up/tmpab'', Generate red_cube_args]"
    by code_simp
  have 6: "Generate red_cube_args \<in> set [TempDir ''/up/tmpab'', Generate red_cube_args]" by simp
  have 7: "generate_image demo_env_no_image red_cube_args = Inr None"
    by (simp add: demo_env_no_image_def)
  from service_error_is_503[OF 1] 3 have a:
    "fst ?bad = error_response ''AI_SERVICE_ERROR'' ''timeout'' 503" by blast
  from service_error_is_503[OF 4] 5 6 7 have b:
    "fst ?none = error_response ''AI_SERVICE_ERROR'' ''Failed to generate image'' 503 \<and>
     Rollback \<notin> set [TempDir ''/up/tmpab'', Generate red_cube_args]" by blast
  from a b 2 5 7 show ?thesis by blast
qed

text \<open>
  Claim C7. Whenever a run calls the synthesis capability, the prompt argument is the
  prompt the request supplied, trimmed and otherwise unchanged, and it is not empty; the
  primary reference path is absent exactly when the request supplied no primary
  reference file with a non-empty name.
\<close>

theorem synthesis_arguments:
  assumes "generate_material_image env pid req w = (resp, w')"
    and "log w' = log w @ evs"
    and "Generate args \<in> set evs"
  shows "\<exists>s. supplied_prompt req = Some s \<and> prompt args = py_strip s \<and> prompt args \<noteq> [] \<and>
           (ref_image_path args = None \<longleftrightarrow>
              (case uploaded_primary req of None \<Rightarrow> True | Some f \<Rightarrow> filename f = []))"
proof -
  from gmi_run[OF assms(1)] assms(2,3) obtain proj p rf efs td where
    pr: "parse_request req = Inr (p, rf, efs)" "p \<noteq> []"
    and sa: "spec_args env td p rf efs args"
    by (elim exE conjE disjE) auto
  from parse_request_Inr[OF pr(1)] obtain s where
    s: "supplied_prompt req = Some s" "p = py_strip s" "rf = uploaded_primary req" by blast
  from sa have "prompt args = p" "ref_image_path args = spec_primary_path env td rf"
    by (simp_all add: spec_args_def)
  with s pr(2) show ?thesis
    by (auto simp: spec_primary_path_def split: option.splits)
qed

text \<open>
  The hypotheses of C7 hold on the multipart request of the deployment: the synthesis
  is called with the trimmed prompt and with the stored primary reference.
\<close>

theorem synthesis_arguments_witness:
  "log (snd (generate_material_image demo_env ''p1'' cat_with_reference world0))
     = log world0 @ [TempDir ''/up/tmpab'', Generate cat_args, Commit] \<and>
   (\<exists>s. supplied_prompt cat_with_reference = Some s \<and> prompt cat_args = py_strip s \<and>
        prompt cat_args \<noteq> [] \<and>
        (ref_image_path cat_args = None \<longleftrightarrow>
           (case uploaded_primary cat_with_reference of None \<Rightarrow> True | Some f \<Rightarrow> filename f = [])))"
proof -
  let ?out = "generate_material_image demo_env ''p1'' cat_with_reference world0"
  have 1: "?out = (fst ?out, snd ?out)" by simp
  have 2: "log (snd ?out) = log world0 @ [TempDir ''/up/tmpab'', Generate cat_args, Commit]"
    by code_simp
  have 3: "Generate cat_args \<in> set [TempDir ''/up/tmpab'', Generate cat_args, Commit]" by simp
  from synthesis_arguments[OF 1 2 3] 2 show ?thesis by blast
qed

text \<open>
  Claim C5, as stated, fails: a file declared under the name \<open>../..\<close> holds path-traversal
  segments and is not stored at all. Its sanitised name is empty, the path built from it
  is the workspace directory itself, not a path strictly inside it, the write raises,
  and the handler answers 503 without calling the synthesis capability.
\<close>

theorem traversal_name_counterexample:
  "secure_filename (nfkd demo_env) ''../..'' = [] \<and>
   stored_path demo_env ''/up/tmpab'' \<lparr>filename = ''../..'', content = ''bytes''\<rparr> = ''/up/tmpab'' \<and>
   \<not> strictly_inside ''/up/tmpab''
       (stored_path demo_env ''/up/tmpab'' \<lparr>filename = ''../..'', content = ''bytes''\<rparr>) \<and>
   status_code (fst (generate_material_image demo_env ''p1'' dots_upload world0)) = 503 \<and>
   log (snd (generate_material_image demo_env ''p1'' dots_upload world0))
     = [TempDir ''/up/tmpab'', Rollback]"
  by code_simp

text \<open>
  Claim C6, as stated, fails: an additional-reference entry that is present and has the
  non-empty name \<open>..\<close> is not materialised. Its sanitised name is empty, the write goes
  to the workspace directory and raises, and the handler answers 503 without calling the
  synthesis capability.
\<close>

theorem named_extra_not_materialized_counterexample:
  "filename \<lparr>filename = ''..'', content = ''bytes''\<rparr> \<noteq> [] \<and>
   fst (save_extras demo_env ''/up/tmpab'' (uploaded_extras dots_extra) [] world1)
     = Inl (''[Errno 21] Is a directory: '' @ quoted ''/up/tmpab'') \<and>
   status_code (fst (generate_material_image demo_env ''p1'' dots_extra world0)) = 503 \<and>
   log (snd (generate_material_image demo_env ''p1'' dots_extra world0))
     = [TempDir ''/up/tmpab'', Rollback]"
  by code_simp

text \<open>
  Claim C6, amended. Whenever the loop over the additional references completes (no
  write raised), the paths it collected are the stored paths of exactly the entries with
  a non-empty name, in input order; each of these paths holds a file afterwards, and no
  other path was written. Entries with an empty name are skipped without raising. And
  whenever a multipart request leads to a synthesis call, the additional references it
  receives are these paths, or the absent value when there are none.
\<close>

theorem additional_references_materialized:
  "(\<forall>ps w'. save_extras env td efs [] w = (Inr ps, w') \<longrightarrow>
       ps = spec_additional_paths env td efs \<and>
       (\<forall>f\<in>set efs. filename f \<noteq> [] \<longrightarrow>
          files w' (stored_path env td f) = written env td efs (stored_path env td f) \<and>
          files w' (stored_path env td f) \<noteq> None) \<and>
       (\<forall>p. p \<notin> set ps \<longrightarrow> files w' p = files w p)) \<and>
   ((\<forall>f\<in>set efs. filename f = []) \<longrightarrow> save_extras env td efs [] w = (Inr [], w)) \<and>
   (\<forall>form fs resp w1 evs args.
       generate_material_image env pid (FormRequest form fs) w = (resp, w1) \<longrightarrow>
       log w1 = log w @ evs \<longrightarrow> Generate args \<in> set evs \<longrightarrow>
       (\<exists>td'. TempDir td' \<in> set evs \<and>
          additional_ref_images args =
            (if spec_additional_paths env td' (getlist ''extra_images'' fs) = [] then None
             else Some (spec_additional_paths env td' (getlist ''extra_images'' fs)))))"
proof (intro conjI allI impI ballI)
  fix ps w'
  assume run: "save_extras env td efs [] w = (Inr ps, w')"
  from save_extras_Inr[OF run] show ps: "ps = spec_additional_paths env td efs" by simp
  {
    fix f assume f: "f \<in> set efs" "filename f \<noteq> []"
    then have "stored_path env td f \<in> set (spec_additional_paths env td efs)"
      by (auto simp: spec_additional_paths_def)
    then have ne: "written env td efs (stored_path env td f) \<noteq> None"
      by (simp add: written_eq_None_iff)
    with save_extras_files[OF run, of "stored_path env td f"]
    show "files w' (stored_path env td f) = written env td efs (stored_path env td f)"
      by (auto split: option.splits)
    with ne show "files w' (stored_path env td f) \<noteq> None" by simp
  }
  fix p assume "p \<notin> set ps"
  with ps have "written env td efs p = None" by (simp add: written_eq_None_iff)
  with save_extras_files[OF run, of p] show "files w' p = files w p" by simp
next
  assume "\<forall>f\<in>set efs. filename f = []"
  then show "save_extras env td efs [] w = (Inr [], w)" by (rule save_extras_skips)
next
  fix form fs resp w1 evs args
  assume a: "generate_material_image env pid (FormRequest form fs) w = (resp, w1)"
    "log w1 = log w @ evs" "Generate args \<in> set evs"
  from gmi_run[OF a(1)] a(2,3) obtain proj p rf efs' td' where
    pr: "parse_request (FormRequest form fs) = Inr (p, rf, efs')"
    and sa: "spec_args env td' p rf efs' args" and td: "TempDir td' \<in> set evs"
    by (elim exE conjE disjE) auto
  from pr have "efs' = getlist ''extra_images'' fs" by simp
  with sa td show "\<exists>td'. TempDir td' \<in> set evs \<and>
          additional_ref_images args =
            (if spec_additional_paths env td' (getlist ''extra_images'' fs) = [] then None
             else Some (spec_additional_paths env td' (getlist ''extra_images'' fs)))"
    by (auto simp: spec_args_def)
qed

text \<open>
  Scenario C meets the hypotheses of the amended C6: the loop completes on the two named
  files, and the synthesis call receives their two paths, in order.
\<close>

theorem additional_references_witness:
  "fst (save_extras demo_env ''/up/tmpab'' (uploaded_extras two_extras) [] world1)
     = Inr [''/up/tmpab/a.png'', ''/up/tmpab/b.png''] \<and>
   spec_additional_paths demo_env ''/up/tmpab'' (uploaded_extras two_extras)
     = [''/up/tmpab/a.png'', ''/up/tmpab/b.png''] \<and>
   log (snd (generate_material_image demo_env ''p1'' two_extras world0))
     = log world0 @ [TempDir ''/up/tmpab'', Generate two_extras_args, Commit] \<and>
   (\<exists>td'. TempDir td' \<in> set [TempDir ''/up/tmpab'', Generate two_extras_args, Commit] \<and>
      additional_ref_images two_extras_args =
        (if spec_additional_paths demo_env td' (uploaded_extras two_extras) = [] then None
         else Some (spec_additional_paths demo_env td' (uploaded_extras two_extras))))"
proof -
  let ?loop = "save_extras demo_env ''/up/tmpab'' (uploaded_extras two_extras) [] world1"
  let ?out = "generate_material_image demo_env ''p1'' two_extras world0"
  have 1: "fst ?loop = Inr [''/up/tmpab/a.png'', ''/up/tmpab/b.png'']" by code_simp
  then have 2: "?loop = (Inr [''/up/tmpab/a.png'', ''/up/tmpab/b.png''], snd ?loop)"
    by (metis prod.collapse)
  have 3: "generate_material_image demo_env ''p1''
             (FormRequest [(''prompt'', ''two cats'')]
       [(''extra_images'', \<lparr>filename = ''a.png'', content = ''first''\<rparr>),
        (''extra_images'', \<lparr>filename = '''', content = ''nameless''\<rparr>),
        (''extra_images'', \<lparr>filename = ''b.png'', content = ''second''\<rparr>)]) world0 = (fst ?out, snd ?out)"
    by (simp add: two_extras_def)
  have 4: "log (snd ?out) = log world0 @ [TempDir ''/up/tmpab'', Generate two_extras_args, Commit]"
    by code_simp
  have 5: "Generate two_extras_args \<in> set [TempDir ''/up/tmpab'', Generate two_extras_args, Commit]"
    by simp
  have 6: "uploaded_extras two_extras = getlist ''extra_images''
       [(''extra_images'', \<lparr>filename = ''a.png'', content = ''first''\<rparr>),
        (''extra_images'', \<lparr>filename = '''', content = ''nameless''\<rparr>),
        (''extra_images'', \<lparr>filename = ''b.png'', content = ''second''\<rparr>)]"
    by (simp add: two_extras_def)
  note main = additional_references_materialized[of demo_env "''/up/tmpab''"
      "uploaded_extras two_extras" world1 "''p1''"]
  from main 2 have a: "[''/up/tmpab/a.png'', ''/up/tmpab/b.png'']
      = spec_additional_paths demo_env ''/up/tmpab'' (uploaded_extras two_extras)" by blast
  note main0 = additional_references_materialized[of demo_env "''/up/tmpab''"
      "uploaded_extras two_extras" world0 "''p1''"]
  from main0 3 4 5 have b: "\<exists>td'. TempDir td' \<in> set [TempDir ''/up/tmpab'', Generate two_extras_args, Commit] \<and>
      additional_ref_images two_extras_args =
        (if spec_additional_paths demo_env td' (getlist ''extra_images''
       [(''extra_images'', \<lparr>filename = ''a.png'', content = ''first''\<rparr>),
        (''extra_images'', \<lparr>filename = '''', content = ''nameless''\<rparr>),
        (''extra_images'', \<lparr>filename = ''b.png'', content = ''second''\<rparr>)]) = [] then None
         else Some (spec_additional_paths demo_env td' (getlist ''extra_images''
       [(''extra_images'', \<lparr>filename = ''a.png'', content = ''first''\<rparr>),
        (''extra_images'', \<lparr>filename = '''', content = ''nameless''\<rparr>),
        (''extra_images'', \<lparr>filename = ''b.png'', content = ''second''\<rparr>)])))"
    by blast
  from 1 a b 4 show ?thesis unfolding 6 by simp
qed

text \<open>
  Claim C8. With the storage capability of the specification, which returns
  \<open>{projectId}/materials/<name>\<close> for a generated file name, every run that returns the
  success response returns such a path as \<open>relative_path\<close>, and its \<open>image_url\<close> is what
  the storage capability derives from the project id, \<open>materials\<close> and \<open><name>\<close>, the
  final segment of the path.
\<close>

theorem success_paths:
  assumes "save_material_image env = spec_save_material_image generated"
    and "\<forall>img n. generated img = Inr n \<longrightarrow> is_file_name n"
    and "generate_material_image env pid req w = (success_response url rel, w')"
  shows "\<exists>n. is_file_name n \<and> rel = pid @ ''/materials/'' @ n \<and> path_name rel = n \<and>
             get_file_url env pid ''materials'' n = Inr url"
proof -
  from gmi_run[OF assms(3)] obtain img where
    s: "save_material_image env img pid = Inr rel"
    and u: "get_file_url env pid ''materials'' (path_name rel) = Inr url"
    by (elim exE conjE disjE) auto
  from s assms(1) obtain n where g: "generated img = Inr n" and rel: "rel = pid @ ''/materials/'' @ n"
    by (auto simp: spec_save_material_image_def split: sum.splits)
  from g assms(2) have fn: "is_file_name n" by blast
  have "path_name ((pid @ ''/materials'') @ ''/'' @ n) = n"
    using path_name_last_segment[OF fn] .
  with rel have "path_name rel = n" by simp
  with fn rel u show ?thesis by auto
qed

text \<open>Scenario A meets the hypotheses of C8, with the generated file name \<open>gen.png\<close>.\<close>

theorem success_paths_witness:
  "save_material_image demo_env = spec_save_material_image (\<lambda>img. Inr ''gen.png'') \<and>
   is_file_name ''gen.png'' \<and>
   fst (generate_material_image demo_env ''p1'' red_cube world0)
     = success_response ''/files/p1/materials/gen.png'' ''p1/materials/gen.png'' \<and>
   (\<exists>n. is_file_name n \<and> ''p1/materials/gen.png'' = ''p1'' @ ''/materials/'' @ n \<and>
        path_name ''p1/materials/gen.png'' = n \<and>
        get_file_url demo_env ''p1'' ''materials'' n = Inr ''/files/p1/materials/gen.png'')"
proof -
  let ?out = "generate_material_image demo_env ''p1'' red_cube world0"
  have 1: "save_material_image demo_env = spec_save_material_image (\<lambda>img. Inr ''gen.png'')"
    by (simp add: demo_env_def spec_save_material_image_def fun_eq_iff)
  have 2: "\<forall>img n. (\<lambda>img. Inr ''gen.png'' :: exn + string) (img :: string) = Inr n \<longrightarrow> is_file_name n"
    by (auto simp: is_file_name_def)
  have 3: "fst ?out = success_response ''/files/p1/materials/gen.png'' ''p1/materials/gen.png''"
    by code_simp
  then have 4: "?out = (success_response ''/files/p1/materials/gen.png'' ''p1/materials/gen.png'', snd ?out)"
    by (metis prod.collapse)
  have 5: "is_file_name ''gen.png''" by (simp add: is_file_name_def)
  from success_paths[OF 1 2 4] 1 5 3 show ?thesis by blast
qed

text \<open>
  Claim C5, amended. Whatever the declared name of an uploaded reference file, nothing
  the handler writes leaves the workspace directory. When the sanitised name is not
  empty, lines 61 to 63 (the primary reference) and lines 70 to 72 (one turn of the loop
  over the additional references) store the bytes of the file at the workspace joined
  with the sanitised name, a path strictly inside the workspace. Once the workspace
  exists, any path that either step changes lies strictly inside it, also when the step
  raises. For a whole run, every path whose content differs afterwards lies under the
  temporary directory of that run, and every path handed to the synthesis capability
  lies strictly inside it.
\<close>

theorem sanitized_path_stays_inside:
  "(filename f \<noteq> [] \<longrightarrow> secure_filename (nfkd env) (filename f) \<noteq> [] \<longrightarrow>
      stored_path env td f \<notin> dirs w0 \<longrightarrow> save_error env (stored_path env td f) = None \<longrightarrow>
        stored_path env td f = td @ ''/'' @ secure_filename (nfkd env) (filename f) \<and>
        strictly_inside td (stored_path env td f) \<and>
        save_ref env td (Some f) w0
          = (Inr (Some (stored_path env td f)),
             w0\<lparr>files := (files w0)(stored_path env td f \<mapsto> content f)\<rparr>) \<and>
        save_extras env td (f # rest) acc w0
          = save_extras env td rest (acc @ [stored_path env td f])
              (w0\<lparr>files := (files w0)(stored_path env td f \<mapsto> content f)\<rparr>)) \<and>
   (td \<in> dirs w0 \<longrightarrow>
      (\<forall>r w1 q. save_ref env td rf w0 = (r, w1) \<longrightarrow> files w1 q \<noteq> files w0 q \<longrightarrow>
         strictly_inside td q) \<and>
      (\<forall>r w1 q. save_extras env td efs acc w0 = (r, w1) \<longrightarrow> files w1 q \<noteq> files w0 q \<longrightarrow>
         strictly_inside td q)) \<and>
   (\<forall>resp w' evs.
      generate_material_image env pid req w = (resp, w') \<longrightarrow> log w' = log w @ evs \<longrightarrow>
        (\<forall>q. files w' q \<noteq> files w q \<longrightarrow> (\<exists>td'. TempDir td' \<in> set evs \<and> under td' q)) \<and>
        (\<forall>args. Generate args \<in> set evs \<longrightarrow>
           (\<exists>td'. TempDir td' \<in> set evs \<and>
              (\<forall>x. ref_image_path args = Some x \<longrightarrow> strictly_inside td' x) \<and>
              (\<forall>xs. additional_ref_images args = Some xs \<longrightarrow>
                 (\<forall>x\<in>set xs. strictly_inside td' x)))))"
proof (intro conjI)
  show "filename f \<noteq> [] \<longrightarrow> secure_filename (nfkd env) (filename f) \<noteq> [] \<longrightarrow>
      stored_path env td f \<notin> dirs w0 \<longrightarrow> save_error env (stored_path env td f) = None \<longrightarrow>
        stored_path env td f = td @ ''/'' @ secure_filename (nfkd env) (filename f) \<and>
        strictly_inside td (stored_path env td f) \<and>
        save_ref env td (Some f) w0
          = (Inr (Some (stored_path env td f)),
             w0\<lparr>files := (files w0)(stored_path env td f \<mapsto> content f)\<rparr>) \<and>
        save_extras env td (f # rest) acc w0
          = save_extras env td rest (acc @ [stored_path env td f])
              (w0\<lparr>files := (files w0)(stored_path env td f \<mapsto> content f)\<rparr>)"
    using stored_path_cases[of env f td] stored_strictly_inside[of env f td]
      save_ref_named[of f env td w0] save_extras_named[of f env td w0 rest acc]
    by blast
next
  show "td \<in> dirs w0 \<longrightarrow>
      (\<forall>r w1 q. save_ref env td rf w0 = (r, w1) \<longrightarrow> files w1 q \<noteq> files w0 q \<longrightarrow>
         strictly_inside td q) \<and>
      (\<forall>r w1 q. save_extras env td efs acc w0 = (r, w1) \<longrightarrow> files w1 q \<noteq> files w0 q \<longrightarrow>
         strictly_inside td q)"
    using save_ref_writes[of env td rf w0] save_extras_writes[of env td efs acc w0] by blast
next
  show "\<forall>resp w' evs.
      generate_material_image env pid req w = (resp, w') \<longrightarrow> log w' = log w @ evs \<longrightarrow>
        (\<forall>q. files w' q \<noteq> files w q \<longrightarrow> (\<exists>td'. TempDir td' \<in> set evs \<and> under td' q)) \<and>
        (\<forall>args. Generate args \<in> set evs \<longrightarrow>
           (\<exists>td'. TempDir td' \<in> set evs \<and>
              (\<forall>x. ref_image_path args = Some x \<longrightarrow> strictly_inside td' x) \<and>
              (\<forall>xs. additional_ref_images args = Some xs \<longrightarrow>
                 (\<forall>x\<in>set xs. strictly_inside td' x))))"
    using gmi_writes[of env pid req w] by blast
qed

text \<open>
  The name \<open>../../evil.png\<close> of scenario F sanitises to \<open>evil.png\<close>: the primary reference is
  stored at \<open>/up/tmpab/evil.png\<close>, and that is the path the synthesis call receives.
\<close>

theorem sanitized_path_witness:
  "secure_filename (nfkd demo_env) (filename evil_upload) = ''evil.png'' \<and>
   fst (save_ref demo_env ''/up/tmpab'' (Some evil_upload) world1)
     = Inr (Some ''/up/tmpab/evil.png'') \<and>
   files (snd (save_ref demo_env ''/up/tmpab'' (Some evil_upload) world1)) ''/up/tmpab/evil.png''
     = Some ''bytes'' \<and>
   strictly_inside ''/up/tmpab'' ''/up/tmpab/evil.png'' \<and>
   log (snd (generate_material_image demo_env ''p1'' cat_with_reference world0))
     = log world0 @ [TempDir ''/up/tmpab'', Generate cat_args, Commit] \<and>
   (\<exists>td'. TempDir td' \<in> set [TempDir ''/up/tmpab'', Generate cat_args, Commit] \<and>
      strictly_inside td' ''/up/tmpab/evil.png'')"
proof -
  let ?out = "generate_material_image demo_env ''p1'' cat_with_reference world0"
  have 1: "secure_filename (nfkd demo_env) (filename evil_upload) = ''evil.png''" by code_simp
  have 2: "filename evil_upload \<noteq> []" by (simp add: evil_upload_def)
  from 1 have 3: "secure_filename (nfkd demo_env) (filename evil_upload) \<noteq> []" by simp
  have 4: "stored_path demo_env ''/up/tmpab'' evil_upload = ''/up/tmpab/evil.png''" by code_simp
  have 5: "stored_path demo_env ''/up/tmpab'' evil_upload \<notin> dirs world1"
    unfolding 4 by (simp add: world1_def)
  have 6: "save_error demo_env (stored_path demo_env ''/up/tmpab'' evil_upload) = None"
    by (simp add: demo_env_def)
  note main = sanitized_path_stays_inside[of evil_upload demo_env "''/up/tmpab''" world1
      "[]" "[]" None "[]" "''p1''" cat_with_reference world0]
  from main 2 3 5 6 have a: "strictly_inside ''/up/tmpab'' (stored_path demo_env ''/up/tmpab'' evil_upload)"
    and b: "save_ref demo_env ''/up/tmpab'' (Some evil_upload) world1
          = (Inr (Some (stored_path demo_env ''/up/tmpab'' evil_upload)),
             world1\<lparr>files := (files world1)(stored_path demo_env ''/up/tmpab'' evil_upload \<mapsto> content evil_upload)\<rparr>)"
    by blast+
  from b have c: "fst (save_ref demo_env ''/up/tmpab'' (Some evil_upload) world1)
     = Inr (Some ''/up/tmpab/evil.png'')"
    and d: "files (snd (save_ref demo_env ''/up/tmpab'' (Some evil_upload) world1)) ''/up/tmpab/evil.png''
     = Some ''bytes''"
    unfolding 4 by (simp_all add: evil_upload_def)
  have 7: "?out = (fst ?out, snd ?out)" by simp
  have 8: "log (snd ?out) = log world0 @ [TempDir ''/up/tmpab'', Generate cat_args, Commit]"
    by code_simp
  have 9: "Generate cat_args \<in> set [TempDir ''/up/tmpab'', Generate cat_args, Commit]" by simp
  have 10: "ref_image_path cat_args = Some ''/up/tmpab/evil.png''" by (simp add: cat_args_def)
  from main 7 8 9 have "\<exists>td'. TempDir td' \<in> set [TempDir ''/up/tmpab'', Generate cat_args, Commit] \<and>
              (\<forall>x. ref_image_path cat_args = Some x \<longrightarrow> strictly_inside td' x) \<and>
              (\<forall>xs. additional_ref_images cat_args = Some xs \<longrightarrow>
                 (\<forall>x\<in>set xs. strictly_inside td' x))" by blast
  with 10 have e: "\<exists>td'. TempDir td' \<in> set [TempDir ''/up/tmpab'', Generate cat_args, Commit] \<and>
      strictly_inside td' ''/up/tmpab/evil.png''" by blast
  from a have a': "strictly_inside ''/up/tmpab'' ''/up/tmpab/evil.png''" unfolding 4 .
  from 1 c d a' 8 e show ?thesis by blast
qed



end
